theory Spec2Isabelle
  imports Main "HOL-Library.List_Lexorder" "HOL-Library.Multiset"
begin

section \<open>Python strings and values\<close>

text \<open>
  A Python \<open>str\<close> is a sequence of Unicode code points, so it is modelled as a list of
  natural numbers. Comparison of two strings is lexicographic on the code points, which
  is the order \<open>HOL-Library.List_Lexorder\<close> puts on lists. ASCII literals are written
  through \<open>ascii\<close>; Cyrillic letters are written as their code points
  (\<open>1040\<close> is U+0410, the capital letter A of the Cyrillic block).
\<close>

type_synonym pystr = "nat list"

definition ascii :: "string \<Rightarrow> pystr" where
  "ascii s = map of_char s"

text \<open>
  \<open>str.isspace\<close> of one code point, which is also the class \<open>\s\<close> of the \<open>re\<close> module
  on \<open>str\<close> patterns and the set \<open>str.strip()\<close> removes.
\<close>

definition py_isspace :: "nat \<Rightarrow> bool" where
  "py_isspace c =
     ((9 \<le> c \<and> c \<le> 13) \<or> (28 \<le> c \<and> c \<le> 32) \<or> c = 133 \<or> c = 160 \<or> c = 5760
      \<or> (8192 \<le> c \<and> c \<le> 8202) \<or> c = 8232 \<or> c = 8233 \<or> c = 8239 \<or> c = 8287
      \<or> c = 12288)"

definition py_strip :: "pystr \<Rightarrow> pystr" where
  "py_strip s = rev (dropWhile py_isspace (rev (dropWhile py_isspace s)))"

text \<open>
  \<open>s.replace(old, new)\<close>: the occurrences of \<open>old\<close> are found from the left and do
  not overlap; an empty \<open>old\<close> matches before every character and at the end.
\<close>

function py_replace :: "pystr \<Rightarrow> pystr \<Rightarrow> pystr \<Rightarrow> pystr" where
  "py_replace old new [] = (if old = [] then new else [])"
| "py_replace old new (c # cs) =
     (if old = [] then new @ c # py_replace old new cs
      else if take (length old) (c # cs) = old
        then new @ py_replace old new (drop (length old) (c # cs))
      else c # py_replace old new cs)"
  by pat_completeness auto
termination
  by (relation "measure (\<lambda>(old, new, s). length s)") auto

text \<open>\<open>re.sub(r'\s+', ' ', text)\<close>: every maximal run of whitespace becomes one space.\<close>

function collapse_ws :: "pystr \<Rightarrow> pystr" where
  "collapse_ws [] = []"
| "collapse_ws (c # cs) =
     (if py_isspace c then 32 # collapse_ws (dropWhile py_isspace cs)
      else c # collapse_ws cs)"
  by pat_completeness auto
termination
  by (relation "measure length") (auto simp: length_dropWhile_le less_Suc_eq_le)

text \<open>\<open>sub in s\<close> on strings: \<open>sub\<close> occurs in \<open>s\<close> as a contiguous piece.\<close>

fun py_in :: "pystr \<Rightarrow> pystr \<Rightarrow> bool" where
  "py_in sub [] = (sub = [])"
| "py_in sub (c # cs) = (take (length sub) (c # cs) = sub \<or> py_in sub cs)"

text \<open>\<open>str(n)\<close> of an integer: its decimal digits, with a minus sign when negative.\<close>

fun digits :: "nat \<Rightarrow> pystr" where
  "digits n = (if n < 10 then [48 + n] else digits (n div 10) @ [48 + n mod 10])"

declare digits.simps [simp del]

definition str_int :: "int \<Rightarrow> pystr" where
  "str_int i = (if i < 0 then 45 # digits (nat (- i)) else digits (nat i))"

text \<open>
  The values a caller can pass as \<open>user_input: Any\<close>: \<open>None\<close>, integers, strings, lists,
  tuples and dictionaries keyed by strings. A dictionary is the list of its items in
  insertion order; its keys are distinct.
\<close>

datatype pyval =
    PNone
  | PInt int
  | PStr pystr
  | PList "pyval list"
  | PTuple "pyval list"
  | PDict "(pystr \<times> pyval) list"

datatype exn = TypeError | IndexError | ValueError | KeyError | RequestException

text \<open>
  \<open>str(v)\<close>. The rendering of a list, a tuple or a dictionary is Python's \<open>repr\<close> of it,
  which depends on the quoting rules for the strings inside; it is the parameter \<open>cstr\<close>.
\<close>

definition py_str :: "(pyval \<Rightarrow> pystr) \<Rightarrow> pyval \<Rightarrow> pystr" where
  "py_str cstr v =
     (case v of
        PNone \<Rightarrow> ascii ''None''
      | PInt i \<Rightarrow> str_int i
      | PStr s \<Rightarrow> s
      | _ \<Rightarrow> cstr v)"

text \<open>
  \<open>for x in v\<close>: the elements of a list or tuple, the keys of a dictionary, the
  characters of a string; \<open>None\<close> and integers are not iterable.
\<close>

definition py_iter :: "pyval \<Rightarrow> exn + pyval list" where
  "py_iter v =
     (case v of
        PList xs \<Rightarrow> Inr xs
      | PTuple xs \<Rightarrow> Inr xs
      | PDict d \<Rightarrow> Inr (map (\<lambda>kv. PStr (fst kv)) d)
      | PStr s \<Rightarrow> Inr (map (\<lambda>c. PStr [c]) s)
      | _ \<Rightarrow> Inl TypeError)"

section \<open>Models: \<open>fipilib/models\<close>\<close>

datatype TaskType = SHORT_ANSWER | MULTIPLE_CHOICE | MATCHING | EXTENDED_ANSWER

datatype CheckResult = CORRECT | INCORRECT | PARTIALLY_CORRECT | ERROR

record AnswerVariant =
  index :: int
  variant_text :: pystr
  input_name :: pystr

record MatchingOption =
  letter :: pystr
  option_text :: pystr
  select_name :: pystr

record MatchingChoice =
  number :: pystr
  choice_text :: pystr

record Task =
  guid :: pystr
  task_id :: pystr
  subject :: pystr
  task_type :: TaskType
  question_text :: pystr
  question_html :: pystr
  answer_variants :: "AnswerVariant list option"
  matching_options :: "MatchingOption list option"
  matching_choices :: "MatchingChoice list option"
  answer_unit :: "pystr option"
  images :: "pystr list"
  kes_codes :: "pystr list"
  metadata :: "(pystr \<times> pyval) list"

section \<open>Result codes: \<open>BaseChecker._parse_result_code\<close>\<close>

definition code_map :: "(pystr \<times> CheckResult) list" where
  "code_map =
     [(ascii ''1'', CORRECT), (ascii ''3'', CORRECT), (ascii ''2'', INCORRECT),
      (ascii ''0'', ERROR)]"

definition parse_result_code :: "pystr \<Rightarrow> CheckResult" where
  "parse_result_code code = (case map_of code_map code of Some r \<Rightarrow> r | None \<Rightarrow> ERROR)"

section \<open>Answer helpers: \<open>fipilib/utils/answer_helpers.py\<close>\<close>

definition binary_string_to_indices :: "pystr \<Rightarrow> int list" where
  "binary_string_to_indices binary_str =
     map (\<lambda>p. int (fst p)) (filter (\<lambda>p. snd p = 49) (enumerate 0 binary_str))"

text \<open>The loop \<open>for idx in indices: if 0 <= idx < total: bits[idx] = '1'\<close>.\<close>

fun set_bits :: "int list \<Rightarrow> int \<Rightarrow> pystr list \<Rightarrow> pystr list" where
  "set_bits [] total_n bits = bits"
| "set_bits (idx # indices) total_n bits =
     set_bits indices total_n
       (if 0 \<le> idx \<and> idx < total_n then bits[nat idx := ascii ''1''] else bits)"

definition indices_to_binary_string :: "int list \<Rightarrow> int \<Rightarrow> pystr" where
  "indices_to_binary_string indices total_n =
     concat (set_bits indices total_n (replicate (nat total_n) (ascii ''0'')))"

section \<open>Answer formatting: \<open>DefaultChecker\<close> and the subject checkers\<close>

definition format_short_answer :: "(pyval \<Rightarrow> pystr) \<Rightarrow> pyval \<Rightarrow> pystr" where
  "format_short_answer cstr user_input = py_strip (py_str cstr user_input)"

text \<open>
  The loop of \<open>_format_multiple_choice\<close>. An element that is not an integer makes the
  comparison \<open>0 <= idx\<close> raise \<open>TypeError\<close>.
\<close>

fun mark_bits :: "pyval list \<Rightarrow> int \<Rightarrow> pystr list \<Rightarrow> exn + pystr list" where
  "mark_bits [] num_variants answer_bits = Inr answer_bits"
| "mark_bits (PInt idx # rest) num_variants answer_bits =
     mark_bits rest num_variants
       (if 0 \<le> idx \<and> idx < num_variants then answer_bits[nat idx := ascii ''1'']
        else answer_bits)"
| "mark_bits (x # rest) num_variants answer_bits = Inl TypeError"

text \<open>\<open>len(task.answer_variants) if task.answer_variants else 5\<close>\<close>

definition num_variants_of :: "Task \<Rightarrow> int" where
  "num_variants_of task =
     (case answer_variants task of
        None \<Rightarrow> 5
      | Some vs \<Rightarrow> if vs = [] then 5 else int (length vs))"

definition format_multiple_choice :: "Task \<Rightarrow> pyval \<Rightarrow> exn + pystr" where
  "format_multiple_choice task user_input =
     (case user_input of
        PStr s \<Rightarrow> Inr s
      | _ \<Rightarrow>
         (let num_variants = num_variants_of task;
              answer_bits = replicate (nat num_variants) (ascii ''0'')
          in case py_iter user_input of
               Inl e \<Rightarrow> Inl e
             | Inr xs \<Rightarrow>
                (case mark_bits xs num_variants answer_bits of
                   Inl e \<Rightarrow> Inl e
                 | Inr bits \<Rightarrow> Inr (concat bits))))"

text \<open>\<open>''.join(str(user_input[letter]) for letter in sorted_letters)\<close>\<close>

fun join_letters ::
  "(pyval \<Rightarrow> pystr) \<Rightarrow> (pystr \<times> pyval) list \<Rightarrow> pystr list \<Rightarrow> exn + pystr" where
  "join_letters cstr d [] = Inr []"
| "join_letters cstr d (l # ls) =
     (case map_of d l of
        None \<Rightarrow> Inl KeyError
      | Some v \<Rightarrow>
         (case join_letters cstr d ls of
            Inl e \<Rightarrow> Inl e
          | Inr s \<Rightarrow> Inr (py_str cstr v @ s)))"

definition format_matching :: "(pyval \<Rightarrow> pystr) \<Rightarrow> pyval \<Rightarrow> exn + pystr" where
  "format_matching cstr user_input =
     (case user_input of
        PStr s \<Rightarrow> Inr s
      | PDict d \<Rightarrow> (let sorted_letters = sort (map fst d) in join_letters cstr d sorted_letters)
      | PList xs \<Rightarrow> Inr (concat (map (py_str cstr) xs))
      | PTuple xs \<Rightarrow> Inr (concat (map (py_str cstr) xs))
      | _ \<Rightarrow> Inr (py_str cstr user_input))"

definition default_format_answer ::
  "(pyval \<Rightarrow> pystr) \<Rightarrow> Task \<Rightarrow> pyval \<Rightarrow> exn + pystr" where
  "default_format_answer cstr task user_input =
     (if task_type task = SHORT_ANSWER then Inr (format_short_answer cstr user_input)
      else if task_type task = MULTIPLE_CHOICE then format_multiple_choice task user_input
      else if task_type task = MATCHING then format_matching cstr user_input
      else Inr (py_str cstr user_input))"

definition format_math_short_answer :: "(pyval \<Rightarrow> pystr) \<Rightarrow> pyval \<Rightarrow> pystr" where
  "format_math_short_answer cstr user_input =
     (let answer = py_strip (py_str cstr user_input);
          answer = py_replace (ascii '','') (ascii ''.'') answer;
          answer = py_replace (ascii '' '') [] answer
      in answer)"

definition format_physics_short_answer :: "(pyval \<Rightarrow> pystr) \<Rightarrow> pyval \<Rightarrow> pystr" where
  "format_physics_short_answer cstr user_input =
     (let answer = py_strip (py_str cstr user_input);
          answer = py_replace (ascii '','') (ascii ''.'') answer;
          answer = py_replace (ascii '' '') [] answer
      in answer)"

definition format_russian_short_answer :: "(pyval \<Rightarrow> pystr) \<Rightarrow> pyval \<Rightarrow> pystr" where
  "format_russian_short_answer cstr user_input =
     (let answer = py_strip (py_str cstr user_input);
          answer = collapse_ws answer
      in answer)"

datatype checker_class = DefaultChecker | MathProfChecker | PhysicsChecker | RussianChecker

text \<open>\<open>format_answer\<close> as each checker class resolves it.\<close>

fun format_answer ::
  "checker_class \<Rightarrow> (pyval \<Rightarrow> pystr) \<Rightarrow> Task \<Rightarrow> pyval \<Rightarrow> exn + pystr" where
  "format_answer DefaultChecker cstr task user_input =
     default_format_answer cstr task user_input"
| "format_answer MathProfChecker cstr task user_input =
     (if task_type task = SHORT_ANSWER then Inr (format_math_short_answer cstr user_input)
      else default_format_answer cstr task user_input)"
| "format_answer PhysicsChecker cstr task user_input =
     (if task_type task = SHORT_ANSWER then Inr (format_physics_short_answer cstr user_input)
      else default_format_answer cstr task user_input)"
| "format_answer RussianChecker cstr task user_input =
     (if task_type task = SHORT_ANSWER then Inr (format_russian_short_answer cstr user_input)
      else default_format_answer cstr task user_input)"

section \<open>Submission: \<open>BaseChecker.check_answer\<close>\<close>

record CheckResponse =
  response_guid :: pystr
  response_task_id :: pystr
  result :: CheckResult
  user_answer :: pystr
  result_code :: pystr
  error :: "exn option"

text \<open>
  \<open>send\<close> is the HTTP exchange of \<open>_send_check_request\<close>: the stripped response text, or
  the exception the transport raised. \<open>format_answer\<close> is called before the \<open>try\<close>
  statement, so what it raises leaves \<open>check_answer\<close>; what the exchange raises is caught.
\<close>

definition check_answer ::
  "checker_class \<Rightarrow> (pyval \<Rightarrow> pystr) \<Rightarrow> (pystr \<Rightarrow> pystr \<Rightarrow> exn + pystr) \<Rightarrow> Task \<Rightarrow> pyval
     \<Rightarrow> exn + CheckResponse" where
  "check_answer cls cstr send task user_input =
     (case format_answer cls cstr task user_input of
        Inl e \<Rightarrow> Inl e
      | Inr answer_str \<Rightarrow>
         Inr (case send (guid task) answer_str of
                Inr code \<Rightarrow>
                  \<lparr>response_guid = guid task, response_task_id = task_id task,
                   result = parse_result_code code, user_answer = answer_str,
                   result_code = code, error = None\<rparr>
              | Inl e \<Rightarrow>
                  \<lparr>response_guid = guid task, response_task_id = task_id task,
                   result = ERROR, user_answer = answer_str,
                   result_code = [], error = Some e\<rparr>))"

section \<open>Subject table and registry: \<open>models/config.py\<close>, \<open>subjects/__init__.py\<close>\<close>

text \<open>\<open>request_delay\<close> is the float \<open>1.0\<close> (seconds) of the source, kept as a whole number.\<close>

record SubjectConfig =
  subject_key :: pystr
  project_id :: pystr
  display_name :: pystr
  base_url :: pystr
  request_timeout :: int
  request_delay :: int

definition SubjectConfig_init :: "pystr \<Rightarrow> pystr \<Rightarrow> pystr \<Rightarrow> SubjectConfig" where
  "SubjectConfig_init key proj shown =
     \<lparr>subject_key = key, project_id = proj, display_name = shown,
      base_url = ascii ''https://ege.fipi.ru'', request_timeout = 30, request_delay = 1\<rparr>"

text \<open>
  The display names are Cyrillic text, written as code points: "Fizika",
  "Matematika (profil'nyi uroven')" and "Russkii yazyk".
\<close>

definition SUBJECTS :: "(pystr \<times> SubjectConfig) list" where
  "SUBJECTS =
     [(ascii ''physics'',
       SubjectConfig_init (ascii ''physics'') (ascii ''BA1F39653304A5B041B656915DC36B38'')
         [1060, 1080, 1079, 1080, 1082, 1072]),
      (ascii ''math_prof'',
       SubjectConfig_init (ascii ''math_prof'') (ascii ''AC437B34557F88EA4115D2F374B0A07B'')
         [1052, 1072, 1090, 1077, 1084, 1072, 1090, 1080, 1082, 1072, 32, 40, 1087, 1088,
          1086, 1092, 1080, 1083, 1100, 1085, 1099, 1081, 32, 1091, 1088, 1086, 1074, 1077,
          1085, 1100, 41]),
      (ascii ''russian'',
       SubjectConfig_init (ascii ''russian'') (ascii ''CA9D848CF10554A28617021C9211069B'')
         [1056, 1091, 1089, 1089, 1082, 1080, 1081, 32, 1103, 1079, 1099, 1082])]"

definition get_subject_config :: "pystr \<Rightarrow> exn + SubjectConfig" where
  "get_subject_config key =
     (case map_of SUBJECTS key of
        None \<Rightarrow> Inl ValueError
      | Some config \<Rightarrow> Inr config)"

datatype parser_class = DefaultParser | PhysicsParser | MathProfParser | RussianParser

text \<open>
  The registries \<open>_PARSERS\<close> and \<open>_CHECKERS\<close> as the four \<open>register()\<close> calls at import
  leave them (the default module registers nothing).
\<close>

definition PARSERS :: "(pystr \<times> parser_class) list" where
  "PARSERS =
     [(ascii ''physics'', PhysicsParser), (ascii ''math_prof'', MathProfParser),
      (ascii ''russian'', RussianParser)]"

definition CHECKERS :: "(pystr \<times> checker_class) list" where
  "CHECKERS =
     [(ascii ''physics'', PhysicsChecker), (ascii ''math_prof'', MathProfChecker),
      (ascii ''russian'', RussianChecker)]"

text \<open>
  \<open>get_parser\<close> and \<open>get_checker\<close>: the instance is the class chosen and the configuration
  it was constructed with; the registry is module state, so it is an argument.
\<close>

definition get_parser ::
  "(pystr \<times> parser_class) list \<Rightarrow> pystr \<Rightarrow> exn + parser_class \<times> SubjectConfig" where
  "get_parser registry key =
     (case get_subject_config key of
        Inl e \<Rightarrow> Inl e
      | Inr config \<Rightarrow>
         (case map_of registry key of
            Some parser_cls \<Rightarrow> Inr (parser_cls, config)
          | None \<Rightarrow> Inr (DefaultParser, config)))"

definition get_checker ::
  "(pystr \<times> checker_class) list \<Rightarrow> pystr \<Rightarrow> exn + checker_class \<times> SubjectConfig" where
  "get_checker registry key =
     (case get_subject_config key of
        Inl e \<Rightarrow> Inl e
      | Inr config \<Rightarrow>
         (case map_of registry key of
            Some checker_cls \<Rightarrow> Inr (checker_cls, config)
          | None \<Rightarrow> Inr (DefaultChecker, config)))"

section \<open>The document tree\<close>

text \<open>
  The parsed page as \<open>BeautifulSoup\<close> holds it: a tag has a name, the dictionary of
  its attributes (the keys are distinct) and its children; a string is a piece of
  text together with its class, \<open>NavigableString\<close> or one of its subclasses (a comment,
  the text of a \<open>script\<close>, \<open>style\<close> or \<open>template\<close> element, and so on, as the tree
  builder assigns them). The root is the \<open>BeautifulSoup\<close> object itself. An element is
  addressed by the child indices that lead to it from the root, so that its ancestors
  and siblings can be reached as \<open>find_parent\<close> and \<open>find_previous_sibling\<close> reach
  them, also outside the fragment being parsed.
  Attribute values are the strings of the markup; the \<open>class\<close> attribute is matched
  against its whitespace-separated values, as the tree builder stores it.
\<close>

datatype string_class =
    NavigableString
  | CData
  | Comment
  | Declaration
  | Doctype
  | ProcessingInstruction
  | Script
  | Stylesheet
  | TemplateString
  | RubyTextString
  | RubyParenthesisString

datatype node =
    Tag pystr "(pystr \<times> pystr) list" "node list"
  | Str string_class pystr

type_synonym elem = "nat list"

fun node_at :: "node \<Rightarrow> elem \<Rightarrow> node option" where
  "node_at n [] = Some n"
| "node_at (Tag nm attrs cs) (i # p) = (if i < length cs then node_at (cs ! i) p else None)"
| "node_at (Str k s) (i # p) = None"

text \<open>The proper descendants of the node at \<open>e\<close>, in document order.\<close>

fun walk :: "elem \<Rightarrow> node \<Rightarrow> (elem \<times> node) list"
  and walk_list :: "elem \<Rightarrow> nat \<Rightarrow> node list \<Rightarrow> (elem \<times> node) list" where
  "walk e (Str k s) = []"
| "walk e (Tag nm attrs cs) = walk_list e 0 cs"
| "walk_list e i [] = []"
| "walk_list e i (c # cs) = (e @ [i], c) # walk (e @ [i]) c @ walk_list e (Suc i) cs"

definition descendants :: "node \<Rightarrow> elem \<Rightarrow> (elem \<times> node) list" where
  "descendants doc e = (case node_at doc e of None \<Rightarrow> [] | Some n \<Rightarrow> walk e n)"

text \<open>The values of a \<open>class\<close> attribute: the maximal runs of non-whitespace.\<close>

fun tokens :: "pystr \<Rightarrow> pystr \<Rightarrow> pystr list" where
  "tokens cur [] = (if cur = [] then [] else [cur])"
| "tokens cur (c # cs) =
     (if py_isspace c then (if cur = [] then tokens [] cs else cur # tokens [] cs)
      else tokens (cur @ [c]) cs)"

fun join_space :: "pystr list \<Rightarrow> pystr" where
  "join_space [] = []"
| "join_space [x] = x"
| "join_space (x # y # ys) = x @ 32 # join_space (y # ys)"

text \<open>
  One required attribute against a tag's attributes: a missing attribute matches only
  the empty string; a \<open>class\<close> matches when one of its values, or all of them joined by
  spaces, is the required string; any other attribute matches when it is equal.
\<close>

definition attr_matches :: "(pystr \<times> pystr) list \<Rightarrow> pystr \<times> pystr \<Rightarrow> bool" where
  "attr_matches attrs req =
     (case map_of attrs (fst req) of
        None \<Rightarrow> snd req = []
      | Some v \<Rightarrow>
         if fst req = ascii ''class''
         then snd req \<in> set (tokens [] v) \<or> join_space (tokens [] v) = snd req
         else v = snd req)"

definition tag_matches :: "pystr \<Rightarrow> (pystr \<times> pystr) list \<Rightarrow> node \<Rightarrow> bool" where
  "tag_matches nm reqs n =
     (case n of
        Tag t attrs cs \<Rightarrow> t = nm \<and> list_all (attr_matches attrs) reqs
      | Str k s \<Rightarrow> False)"

definition find_all :: "node \<Rightarrow> elem \<Rightarrow> pystr \<Rightarrow> (pystr \<times> pystr) list \<Rightarrow> elem list" where
  "find_all doc e nm reqs =
     map fst (filter (\<lambda>p. tag_matches nm reqs (snd p)) (descendants doc e))"

definition find_tag :: "node \<Rightarrow> elem \<Rightarrow> pystr \<Rightarrow> (pystr \<times> pystr) list \<Rightarrow> elem option" where
  "find_tag doc e nm reqs = (case find_all doc e nm reqs of [] \<Rightarrow> None | x # xs \<Rightarrow> Some x)"

definition is_tag_named :: "node \<Rightarrow> pystr \<Rightarrow> elem \<Rightarrow> bool" where
  "is_tag_named doc nm e =
     (case node_at doc e of None \<Rightarrow> False | Some n \<Rightarrow> tag_matches nm [] n)"

text \<open>The ancestors of an element, nearest first, up to the root.\<close>

definition parents :: "elem \<Rightarrow> elem list" where
  "parents e = map (\<lambda>k. take k e) (rev [0..<length e])"

definition find_parent :: "node \<Rightarrow> elem \<Rightarrow> pystr \<Rightarrow> elem option" where
  "find_parent doc e nm = List.find (is_tag_named doc nm) (parents e)"

text \<open>The siblings before an element, nearest first.\<close>

definition previous_siblings :: "elem \<Rightarrow> elem list" where
  "previous_siblings e =
     (if e = [] then [] else map (\<lambda>j. butlast e @ [j]) (rev [0..<last e]))"

definition find_previous_sibling :: "node \<Rightarrow> elem \<Rightarrow> pystr \<Rightarrow> elem option" where
  "find_previous_sibling doc e nm = List.find (is_tag_named doc nm) (previous_siblings e)"

definition get_attr :: "node \<Rightarrow> elem \<Rightarrow> pystr \<Rightarrow> pystr \<Rightarrow> pystr" where
  "get_attr doc e key dflt =
     (case node_at doc e of
        Some (Tag t attrs cs) \<Rightarrow> (case map_of attrs key of Some v \<Rightarrow> v | None \<Rightarrow> dflt)
      | _ \<Rightarrow> dflt)"

text \<open>
  The string classes \<open>get_text\<close> collects under a tag of the given name, which the
  tree builder sets as the tag's \<open>interesting_string_types\<close>: the one special class
  for the five container elements, and \<open>NavigableString\<close> and \<open>CData\<close> for every other
  tag. The class of a string must be one of them exactly, so under an ordinary tag
  the comments and the texts of scripts, styles and templates are left out.
\<close>

definition default_interesting_string_types :: "string_class list" where
  "default_interesting_string_types = [NavigableString, CData]"

definition interesting_string_types :: "pystr \<Rightarrow> string_class list" where
  "interesting_string_types nm =
     (if nm = ascii ''rt'' then [RubyTextString]
      else if nm = ascii ''rp'' then [RubyParenthesisString]
      else if nm = ascii ''style'' then [Stylesheet]
      else if nm = ascii ''script'' then [Script]
      else if nm = ascii ''template'' then [TemplateString]
      else default_interesting_string_types)"

text \<open>
  The strings \<open>get_text\<close> joins: those descendants of the tag that are strings of an
  interesting class, in document order (for a string element, the string itself when
  its class is one of the default ones).
\<close>

definition strings_of :: "node \<Rightarrow> elem \<Rightarrow> pystr list" where
  "strings_of doc e =
     (case node_at doc e of
        None \<Rightarrow> []
      | Some (Str k s) \<Rightarrow> (if k \<in> set default_interesting_string_types then [s] else [])
      | Some (Tag nm attrs cs) \<Rightarrow>
         concat (map (\<lambda>p. case snd p of
                            Str k s \<Rightarrow> if k \<in> set (interesting_string_types nm) then [s] else []
                          | Tag t a c \<Rightarrow> [])
                   (walk e (Tag nm attrs cs))))"

definition get_text :: "node \<Rightarrow> elem \<Rightarrow> pystr" where
  "get_text doc e = concat (strings_of doc e)"

text \<open>\<open>get_text(strip=True)\<close>: every string stripped, the empty ones left out.\<close>

definition get_text_strip :: "node \<Rightarrow> elem \<Rightarrow> pystr" where
  "get_text_strip doc e = concat (filter (\<lambda>s. s \<noteq> []) (map py_strip (strings_of doc e)))"

text \<open>
  What the code takes from its libraries and is not modelled here: the HTML parser, the
  serialisation \<open>str(tag)\<close>, the two image patterns of \<open>_extract_images\<close> as
  \<open>re.findall\<close> runs them, \<open>str.lower\<close>, and the Unicode decimal digits beyond ASCII
  (for the class \<open>\d\<close>).
\<close>

record lib =
  BeautifulSoup :: "pystr \<Rightarrow> node"
  to_str :: "node \<Rightarrow> pystr"
  findall_ShowPictureQ :: "pystr \<Rightarrow> pystr list"
  findall_img_src :: "pystr \<Rightarrow> pystr list"
  lower :: "pystr \<Rightarrow> pystr"
  unicode_decimal :: "nat \<Rightarrow> bool"

section \<open>The answer-block classifier: \<open>DefaultParser\<close>\<close>

definition clean_text :: "pystr \<Rightarrow> pystr" where
  "clean_text t =
     (let t = collapse_ws t;
          t = py_strip t;
          t = py_replace (ascii ''&nbsp;'') (ascii '' '') t
      in t)"

text \<open>The keyword arguments a classifier hands to the \<open>Task\<close> constructor.\<close>

record answer_data =
  kw_answer_unit :: "pystr option"
  kw_answer_variants :: "AnswerVariant list option"
  kw_matching_options :: "MatchingOption list option"
  kw_matching_choices :: "MatchingChoice list option"

definition no_data :: answer_data where
  "no_data =
     \<lparr>kw_answer_unit = None, kw_answer_variants = None, kw_matching_options = None,
      kw_matching_choices = None\<rparr>"

text \<open>
  The character class of the unit pattern: small and capital Cyrillic letters of the
  basic alphabet, Latin letters and the degree sign.
\<close>

definition unit_char :: "nat \<Rightarrow> bool" where
  "unit_char c =
     ((1072 \<le> c \<and> c \<le> 1103) \<or> (1040 \<le> c \<and> c \<le> 1071) \<or> (97 \<le> c \<and> c \<le> 122)
      \<or> (65 \<le> c \<and> c \<le> 90) \<or> c = 176)"

text \<open>
  \<open>re.search\<close> of the unit pattern: the leftmost closing \<open>input\<close> tag that is followed,
  after any whitespace, by at least one character of the class; group 1 is the longest
  run of such characters.
\<close>

fun re_search_unit :: "pystr \<Rightarrow> pystr option" where
  "re_search_unit [] = None"
| "re_search_unit (c # cs) =
     (if take 8 (c # cs) = ascii ''</input>''
         \<and> takeWhile unit_char (dropWhile py_isspace (drop 8 (c # cs))) \<noteq> []
      then Some (takeWhile unit_char (dropWhile py_isspace (drop 8 (c # cs))))
      else re_search_unit cs)"

definition text_answer_input :: "(pystr \<times> pystr) list" where
  "text_answer_input = [(ascii ''type'', ascii ''text''), (ascii ''name'', ascii ''answer'')]"

definition checkbox_input :: "(pystr \<times> pystr) list" where
  "checkbox_input = [(ascii ''type'', ascii ''checkbox'')]"

definition parse_short_answer :: "lib \<Rightarrow> node \<Rightarrow> elem \<Rightarrow> TaskType \<times> answer_data" where
  "parse_short_answer L doc block =
     (let unit_opt =
        (case find_tag doc block (ascii ''input'') text_answer_input of
           None \<Rightarrow> None
         | Some text_input \<Rightarrow>
            (case node_at doc (butlast text_input) of
               None \<Rightarrow> None
             | Some parent \<Rightarrow>
                (case re_search_unit (to_str L parent) of
                   None \<Rightarrow> None
                 | Some g \<Rightarrow> Some (py_strip g))))
      in (SHORT_ANSWER, no_data\<lparr>kw_answer_unit := unit_opt\<rparr>))"

text \<open>
  The loop of \<open>_parse_multiple_choice\<close> over the enumerated active rows. A row without
  a checkbox is passed over; \<open>row.find_all('td')[-1]\<close> raises \<open>IndexError\<close> on a row
  with a checkbox and no cell.
\<close>

fun multiple_choice_rows ::
  "node \<Rightarrow> (nat \<times> elem) list \<Rightarrow> AnswerVariant list \<Rightarrow> exn + AnswerVariant list" where
  "multiple_choice_rows doc [] variants = Inr variants"
| "multiple_choice_rows doc ((idx, row) # rest) variants =
     (case find_tag doc row (ascii ''input'') checkbox_input of
        None \<Rightarrow> multiple_choice_rows doc rest variants
      | Some checkbox \<Rightarrow>
         (case find_all doc row (ascii ''td'') [] of
            [] \<Rightarrow> Inl IndexError
          | c # cells \<Rightarrow>
             (let text_cell = last (c # cells)
              in multiple_choice_rows doc rest
                   (variants @
                    [\<lparr>index = int idx,
                      variant_text = clean_text (get_text doc text_cell),
                      input_name =
                        get_attr doc checkbox (ascii ''name'')
                          (ascii ''test'' @ str_int (int idx))\<rparr>]))))"

definition parse_multiple_choice :: "node \<Rightarrow> elem \<Rightarrow> exn + TaskType \<times> answer_data" where
  "parse_multiple_choice doc block =
     (let active_rows =
            find_all doc block (ascii ''tr'') [(ascii ''class'', ascii ''active-distractor'')]
      in case multiple_choice_rows doc (enumerate 0 active_rows) [] of
           Inl e \<Rightarrow> Inl e
         | Inr variants \<Rightarrow>
            Inr (MULTIPLE_CHOICE, no_data\<lparr>kw_answer_variants := Some variants\<rparr>))"

text \<open>\<open>chr(n)\<close> raises \<open>ValueError\<close> outside the range of code points.\<close>

definition py_chr :: "nat \<Rightarrow> exn + pystr" where
  "py_chr n = (if n < 1114112 then Inr [n] else Inl ValueError)"

text \<open>"Variant " in Cyrillic, the prefix of the synthesised label.\<close>

definition variant_prefix :: pystr where
  "variant_prefix = [1042, 1072, 1088, 1080, 1072, 1085, 1090, 32]"

text \<open>
  The first loop of \<open>_parse_matching\<close>, over the enumerated \<open>select\<close> elements. A select
  with no enclosing \<open>td\<close> adds nothing.
\<close>

fun matching_options_loop ::
  "node \<Rightarrow> (nat \<times> elem) list \<Rightarrow> MatchingOption list \<Rightarrow> exn + MatchingOption list" where
  "matching_options_loop doc [] options = Inr options"
| "matching_options_loop doc ((idx, select) # rest) options =
     (let sel_name = get_attr doc select (ascii ''name'') (ascii ''ans'' @ str_int (int idx))
      in case find_parent doc select (ascii ''td'') of
           None \<Rightarrow> matching_options_loop doc rest options
         | Some parent_td \<Rightarrow>
            (case (case find_previous_sibling doc parent_td (ascii ''td'') of
                     Some prev_td \<Rightarrow> Inr (clean_text (get_text doc prev_td))
                   | None \<Rightarrow> py_chr (1040 + idx)) of
               Inl e \<Rightarrow> Inl e
             | Inr ltr \<Rightarrow>
                matching_options_loop doc rest
                  (options @
                   [\<lparr>letter = ltr, option_text = variant_prefix @ ltr,
                     select_name = sel_name\<rparr>])))"

text \<open>
  \<open>re.match(r'^\d+\)', s)\<close>: at least one decimal digit, then a closing parenthesis.
  Below 128 the decimal digits are \<open>0\<close> to \<open>9\<close>.
\<close>

definition py_isdecimal :: "lib \<Rightarrow> nat \<Rightarrow> bool" where
  "py_isdecimal L c = (if c < 128 then 48 \<le> c \<and> c \<le> 57 else unicode_decimal L c)"

definition re_match_number :: "lib \<Rightarrow> pystr \<Rightarrow> bool" where
  "re_match_number L s =
     (takeWhile (py_isdecimal L) s \<noteq> [] \<and> take 1 (dropWhile (py_isdecimal L) s) = ascii '')'')"

fun matching_choices_loop ::
  "lib \<Rightarrow> node \<Rightarrow> elem list \<Rightarrow> MatchingChoice list \<Rightarrow> MatchingChoice list" where
  "matching_choices_loop L doc [] choices = choices"
| "matching_choices_loop L doc (row # rest) choices =
     (let cells = find_all doc row (ascii ''td'') []
      in if length cells \<ge> 2
         then (let number_text = clean_text (get_text doc (cells ! 0))
               in if re_match_number L number_text
                  then matching_choices_loop L doc rest
                         (choices @
                          [\<lparr>number = py_strip (py_replace (ascii '')'') [] number_text),
                            choice_text = clean_text (get_text doc (cells ! 1))\<rparr>])
                  else matching_choices_loop L doc rest choices)
         else matching_choices_loop L doc rest choices)"

definition parse_matching :: "lib \<Rightarrow> node \<Rightarrow> elem \<Rightarrow> exn + TaskType \<times> answer_data" where
  "parse_matching L doc block =
     (let selects = find_all doc block (ascii ''select'') []
      in case matching_options_loop doc (enumerate 0 selects) [] of
           Inl e \<Rightarrow> Inl e
         | Inr options \<Rightarrow>
            (let choice_rows = find_all doc block (ascii ''tr'') [];
                 choices = matching_choices_loop L doc choice_rows []
             in Inr (MATCHING,
                     no_data\<lparr>kw_matching_options := Some options,
                             kw_matching_choices := Some choices\<rparr>)))"

text \<open>
  The block the classifier looks into: the first \<open>div\<close> of class \<open>varinats-block\<close>
  inside the fragment, or the fragment itself when there is none.
\<close>

definition variants_block_of :: "node \<Rightarrow> elem \<Rightarrow> elem" where
  "variants_block_of doc block =
     (case find_tag doc block (ascii ''div'') [(ascii ''class'', ascii ''varinats-block'')] of
        None \<Rightarrow> block
      | Some vb \<Rightarrow> vb)"

definition parse_answer_block :: "lib \<Rightarrow> node \<Rightarrow> elem \<Rightarrow> exn + TaskType \<times> answer_data" where
  "parse_answer_block L doc block =
     (let variants_block = variants_block_of doc block
      in if find_tag doc variants_block (ascii ''input'') text_answer_input \<noteq> None
         then Inr (parse_short_answer L doc variants_block)
         else if find_all doc variants_block (ascii ''input'') checkbox_input \<noteq> []
         then parse_multiple_choice doc variants_block
         else if find_all doc variants_block (ascii ''select'') [] \<noteq> []
         then parse_matching L doc variants_block
         else Inr (SHORT_ANSWER, no_data))"

section \<open>Extraction: \<open>BaseParser\<close>\<close>

text \<open>
  The methods a parser class supplies: the subject key of its configuration, the
  abstract \<open>parse_answer_block\<close> and the overridable \<open>post_process_task\<close>.
\<close>

record parser =
  config_subject_key :: pystr
  answer_block_method :: "node \<Rightarrow> elem \<Rightarrow> exn + TaskType \<times> answer_data"
  post_process_task :: "Task \<Rightarrow> exn + Task"

definition guid_input_attrs :: "(pystr \<times> pystr) list" where
  "guid_input_attrs = [(ascii ''name'', ascii ''guid'')]"

definition extract_guid :: "node \<Rightarrow> elem \<Rightarrow> pystr option" where
  "extract_guid doc block =
     (case find_tag doc block (ascii ''input'') guid_input_attrs of
        None \<Rightarrow> None
      | Some guid_input \<Rightarrow> Some (get_attr doc guid_input (ascii ''value'') []))"

definition extract_task_id :: "node \<Rightarrow> elem \<Rightarrow> pystr option" where
  "extract_task_id doc block =
     (case find_tag doc block (ascii ''span'') [(ascii ''class'', ascii ''canselect'')] of
        Some task_id_span \<Rightarrow> Some (get_text_strip doc task_id_span)
      | None \<Rightarrow>
         (case find_tag doc block (ascii ''input'') guid_input_attrs of
            Some guid_input \<Rightarrow>
              (let g = get_attr doc guid_input (ascii ''value'') []
               in if g \<noteq> [] then Some (take 8 g) else None)
          | None \<Rightarrow> None))"

definition extract_question :: "lib \<Rightarrow> node \<Rightarrow> elem \<Rightarrow> pystr \<times> pystr" where
  "extract_question L doc block =
     (case find_tag doc block (ascii ''td'') [(ascii ''class'', ascii ''cell_0'')] of
        None \<Rightarrow> ([], [])
      | Some cell0 \<Rightarrow>
         (case node_at doc cell0 of
            None \<Rightarrow> ([], [])
          | Some n \<Rightarrow> (to_str L n, clean_text (get_text doc cell0))))"

definition extract_images :: "lib \<Rightarrow> pystr \<Rightarrow> pystr list" where
  "extract_images L html = findall_ShowPictureQ L html @ findall_img_src L html"

text \<open>The Cyrillic abbreviation of the topic codes, in capitals and in small letters.\<close>

definition kes_upper :: pystr where
  "kes_upper = [1050, 1069, 1057]"

definition kes_lower :: pystr where
  "kes_lower = [1082, 1101, 1089]"

fun kes_divs_loop :: "node \<Rightarrow> elem list \<Rightarrow> pystr list \<Rightarrow> pystr list" where
  "kes_divs_loop doc [] codes = codes"
| "kes_divs_loop doc (kes_div # rest) codes =
     (let kes_text = clean_text (get_text doc kes_div)
      in kes_divs_loop doc rest (if kes_text \<noteq> [] then codes @ [kes_text] else codes))"

fun kes_rows_loop :: "lib \<Rightarrow> node \<Rightarrow> elem list \<Rightarrow> pystr list \<Rightarrow> pystr list" where
  "kes_rows_loop L doc [] codes = codes"
| "kes_rows_loop L doc (row # rest) codes =
     (let cells = find_all doc row (ascii ''td'') []
      in if length cells \<ge> 2
         then (let param_name = get_text_strip doc (cells ! 0)
               in if py_in kes_upper param_name \<or> py_in kes_lower (lower L param_name)
                  then (let param_row = cells ! 1;
                            kes_divs = find_all doc param_row (ascii ''div'') []
                        in if kes_divs \<noteq> []
                           then kes_rows_loop L doc rest (kes_divs_loop doc kes_divs codes)
                           else (let kes_text = clean_text (get_text doc param_row)
                                 in kes_rows_loop L doc rest
                                      (if kes_text \<noteq> [] then codes @ [kes_text]
                                       else codes)))
                  else kes_rows_loop L doc rest codes)
         else kes_rows_loop L doc rest codes)"

definition extract_kes :: "lib \<Rightarrow> node \<Rightarrow> elem \<Rightarrow> pystr list" where
  "extract_kes L doc block =
     (let qblock_id = get_attr doc block (ascii ''id'') []
      in if qblock_id = [] \<or> take 1 qblock_id \<noteq> ascii ''q'' then []
         else (let info_block_id = ascii ''i'' @ drop 1 qblock_id
               in case find_tag doc [] (ascii ''div'') [(ascii ''id'', info_block_id)] of
                    None \<Rightarrow> []
                  | Some info_block \<Rightarrow>
                     (case find_tag doc info_block (ascii ''div'')
                             [(ascii ''class'', ascii ''task-info-panel'')] of
                        None \<Rightarrow> []
                      | Some info_panel \<Rightarrow>
                         (case find_tag doc info_panel (ascii ''table'') [] of
                            None \<Rightarrow> []
                          | Some info_table \<Rightarrow>
                             kes_rows_loop L doc
                               (find_all doc info_table (ascii ''tr'') []) []))))"

text \<open>
  \<open>parse_task_block\<close>: \<open>None\<close> when the identifier or the public id is missing or
  empty; every exception raised after that is caught and gives \<open>None\<close> as well.
\<close>

definition parse_task_block :: "lib \<Rightarrow> parser \<Rightarrow> node \<Rightarrow> elem \<Rightarrow> Task option" where
  "parse_task_block L P doc block =
     (let guid_opt = extract_guid doc block;
          task_id_opt = extract_task_id doc block
      in case guid_opt of
           None \<Rightarrow> None
         | Some g \<Rightarrow>
            (case task_id_opt of
               None \<Rightarrow> None
             | Some t \<Rightarrow>
                if g = [] \<or> t = [] then None
                else (let q = extract_question L doc block;
                          q_html = fst q;
                          q_text = snd q;
                          imgs = extract_images L q_html;
                          kes = extract_kes L doc block
                      in case answer_block_method P doc block of
                           Inl e \<Rightarrow> None
                         | Inr (ty, kwargs) \<Rightarrow>
                            (case post_process_task P
                                    \<lparr>guid = g, task_id = t, subject = config_subject_key P,
                                     task_type = ty, question_text = q_text,
                                     question_html = q_html,
                                     answer_variants = kw_answer_variants kwargs,
                                     matching_options = kw_matching_options kwargs,
                                     matching_choices = kw_matching_choices kwargs,
                                     answer_unit = kw_answer_unit kwargs,
                                     images = imgs, kes_codes = kes, metadata = []\<rparr> of
                               Inl e \<Rightarrow> None
                             | Inr task \<Rightarrow> Some task))))"

text \<open>The loop of \<open>parse_page\<close> over the task blocks.\<close>

fun collect_tasks :: "lib \<Rightarrow> parser \<Rightarrow> node \<Rightarrow> elem list \<Rightarrow> Task list \<Rightarrow> Task list" where
  "collect_tasks L P doc [] tasks = tasks"
| "collect_tasks L P doc (block # rest) tasks =
     (case parse_task_block L P doc block of
        None \<Rightarrow> collect_tasks L P doc rest tasks
      | Some task \<Rightarrow> collect_tasks L P doc rest (tasks @ [task]))"

definition parse_page :: "lib \<Rightarrow> parser \<Rightarrow> pystr \<Rightarrow> Task list" where
  "parse_page L P html =
     (let soup = BeautifulSoup L html;
          task_blocks = find_all soup [] (ascii ''div'') [(ascii ''class'', ascii ''qblock'')]
      in collect_tasks L P soup task_blocks [])"

text \<open>The default parser: the classifier above, and no post-processing.\<close>

definition default_parser :: "lib \<Rightarrow> pystr \<Rightarrow> parser" where
  "default_parser L key =
     \<lparr>config_subject_key = key, answer_block_method = parse_answer_block L,
      post_process_task = Inr\<rparr>"

section \<open>What the specification says of the left-hand options\<close>

text \<open>
  The specification's account of the matching options, in its own words: one entry for
  every \<open>select\<close> element, in document order; the letter is the text of the table cell
  immediately preceding the cell that holds the \<open>select\<close>, and the index-th Cyrillic
  letter, counted from the capital A, when there is no preceding cell; the label is
  the placeholder made of "Variant" and the letter; the field name is the \<open>name\<close>
  attribute, or \<open>ans\<close> followed by the index. A table cell is a \<open>td\<close> element, and the
  text of a cell is what \<open>get_text\<close> gives, cleaned.
\<close>

definition cell_before :: "node \<Rightarrow> elem \<Rightarrow> elem option" where
  "cell_before doc select =
     (case find_parent doc select (ascii ''td'') of
        None \<Rightarrow> None
      | Some cell \<Rightarrow> find_previous_sibling doc cell (ascii ''td''))"

definition spec_matching_option :: "node \<Rightarrow> nat \<times> elem \<Rightarrow> MatchingOption" where
  "spec_matching_option doc p =
     (let ltr = (case cell_before doc (snd p) of
                   Some cell \<Rightarrow> clean_text (get_text doc cell)
                 | None \<Rightarrow> [1040 + fst p])
      in \<lparr>letter = ltr, option_text = variant_prefix @ ltr,
          select_name = get_attr doc (snd p) (ascii ''name'')
                          (ascii ''ans'' @ str_int (int (fst p)))\<rparr>)"

definition spec_matching_options :: "node \<Rightarrow> elem \<Rightarrow> MatchingOption list" where
  "spec_matching_options doc block =
     map (spec_matching_option doc) (enumerate 0 (find_all doc block (ascii ''select'') []))"

text \<open>An enumerated \<open>select\<close> that lies inside a table cell.\<close>

definition in_cell :: "node \<Rightarrow> nat \<times> elem \<Rightarrow> bool" where
  "in_cell doc p = (find_parent doc (snd p) (ascii ''td'') \<noteq> None)"

text \<open>Every active row that holds a checkbox also holds a cell.\<close>

definition rows_have_cells :: "node \<Rightarrow> elem \<Rightarrow> bool" where
  "rows_have_cells doc vb =
     list_all (\<lambda>row. find_tag doc row (ascii ''input'') checkbox_input = None
                   \<or> find_all doc row (ascii ''td'') [] \<noteq> [])
       (find_all doc vb (ascii ''tr'') [(ascii ''class'', ascii ''active-distractor'')])"

section \<open>Concrete inputs for the examples\<close>

text \<open>
  A task with the given type and options and nothing else; a rendering of containers
  and a library that the examples never consult; an exchange that always answers "1".
\<close>

definition blank_task :: "TaskType \<Rightarrow> AnswerVariant list option \<Rightarrow> Task" where
  "blank_task ty vs =
     \<lparr>guid = [], task_id = [], subject = [], task_type = ty, question_text = [],
      question_html = [], answer_variants = vs, matching_options = None,
      matching_choices = None, answer_unit = None, images = [], kes_codes = [],
      metadata = []\<rparr>"

definition no_cstr :: "pyval \<Rightarrow> pystr" where
  "no_cstr v = []"

definition send_correct :: "pystr \<Rightarrow> pystr \<Rightarrow> exn + pystr" where
  "send_correct g a = Inr (ascii ''1'')"

definition send_timeout :: "pystr \<Rightarrow> pystr \<Rightarrow> exn + pystr" where
  "send_timeout g a = Inl RequestException"

definition plain_lib :: lib where
  "plain_lib =
     \<lparr>BeautifulSoup = (\<lambda>html. Tag (ascii ''[document]'') [] [Str NavigableString html]),
      to_str = (\<lambda>n. []), findall_ShowPictureQ = (\<lambda>html. []),
      findall_img_src = (\<lambda>html. []), lower = (\<lambda>s. s),
      unicode_decimal = (\<lambda>c. False)\<rparr>"

text \<open>
  A fragment whose variants block holds a checkbox (in no active row) while the text
  input named "answer" stands outside the variants block.
\<close>

definition doc_text_outside :: node where
  "doc_text_outside =
     Tag (ascii ''[document]'') []
       [Tag (ascii ''div'') [(ascii ''class'', ascii ''qblock'')]
          [Tag (ascii ''div'') [(ascii ''class'', ascii ''varinats-block'')]
             [Tag (ascii ''input'') [(ascii ''type'', ascii ''checkbox'')] []],
           Tag (ascii ''input'')
             [(ascii ''type'', ascii ''text''), (ascii ''name'', ascii ''answer'')] []]]"

text \<open>A fragment with a text input named "answer" and a checkbox.\<close>

definition doc_text :: node where
  "doc_text =
     Tag (ascii ''[document]'') []
       [Tag (ascii ''div'') [(ascii ''class'', ascii ''qblock'')]
          [Tag (ascii ''input'')
             [(ascii ''type'', ascii ''text''), (ascii ''name'', ascii ''answer'')] [],
           Tag (ascii ''input'') [(ascii ''type'', ascii ''checkbox'')] []]]"

text \<open>A fragment with one active row: a checkbox cell and a label cell.\<close>

definition doc_checkbox :: node where
  "doc_checkbox =
     Tag (ascii ''[document]'') []
       [Tag (ascii ''div'') [(ascii ''class'', ascii ''qblock'')]
          [Tag (ascii ''table'') []
             [Tag (ascii ''tr'') [(ascii ''class'', ascii ''active-distractor'')]
                [Tag (ascii ''td'') []
                   [Tag (ascii ''input'')
                      [(ascii ''type'', ascii ''checkbox''), (ascii ''name'', ascii ''t0'')] []],
                 Tag (ascii ''td'') [] [Str NavigableString (ascii ''first  choice'')]]]]]"

text \<open>
  A fragment with two selects in table cells: the first after a cell that holds a
  script, a comment and (with blanks around it) the Cyrillic capital A, the second in
  the first cell of its row and without a \<open>name\<close>.
\<close>

definition doc_matching :: node where
  "doc_matching =
     Tag (ascii ''[document]'') []
       [Tag (ascii ''div'') [(ascii ''class'', ascii ''qblock'')]
          [Tag (ascii ''table'') []
             [Tag (ascii ''tr'') []
                [Tag (ascii ''td'') []
                   [Tag (ascii ''script'') [] [Str Script (ascii ''var a=1;'')],
                    Str Comment (ascii ''letter''),
                    Str NavigableString [32, 1040, 10]],
                 Tag (ascii ''td'') [] [Tag (ascii ''select'') [(ascii ''name'', ascii ''x'')] []]],
              Tag (ascii ''tr'') []
                [Tag (ascii ''td'') [] [Tag (ascii ''select'') [] []]]]]]"


text \<open>A fragment with no control at all.\<close>

definition doc_empty :: node where
  "doc_empty =
     Tag (ascii ''[document]'') []
       [Tag (ascii ''div'') [(ascii ''class'', ascii ''qblock'')] []]"

text \<open>
  A page with two fragments: the first has no control named "guid", the second has the
  hidden control and the public id.
\<close>

definition doc_page :: node where
  "doc_page =
     Tag (ascii ''[document]'') []
       [Tag (ascii ''div'') [(ascii ''class'', ascii ''qblock'')]
          [Str NavigableString (ascii ''no task here'')],
        Tag (ascii ''div'') [(ascii ''class'', ascii ''qblock''), (ascii ''id'', ascii ''q1'')]
          [Tag (ascii ''input'')
             [(ascii ''type'', ascii ''hidden''), (ascii ''name'', ascii ''guid''),
              (ascii ''value'', ascii ''G1'')] [],
           Tag (ascii ''span'') [(ascii ''class'', ascii ''canselect'')]
             [Str Comment (ascii ''id''), Str NavigableString (ascii '' A1 '')]]]"

text \<open>
  A fragment whose only control named "guid" is a visible text input, beside the
  public id.
\<close>

definition doc_visible_guid :: node where
  "doc_visible_guid =
     Tag (ascii ''[document]'') []
       [Tag (ascii ''div'') [(ascii ''class'', ascii ''qblock'')]
          [Tag (ascii ''input'')
             [(ascii ''type'', ascii ''text''), (ascii ''name'', ascii ''guid''),
              (ascii ''value'', ascii ''G2'')] [],
           Tag (ascii ''span'') [(ascii ''class'', ascii ''canselect'')]
             [Str NavigableString (ascii ''B7'')]]]"

definition page_lib :: lib where
  "page_lib = plain_lib\<lparr>BeautifulSoup := (\<lambda>html. doc_page)\<rparr>"

section \<open>Evaluation rules for concrete inputs\<close>

lemmas dom_eval =
  find_tag_def find_all_def descendants_def tag_matches_def attr_matches_def ascii_def
  is_tag_named_def find_parent_def find_previous_sibling_def parents_def
  previous_siblings_def get_attr_def strings_of_def get_text_def get_text_strip_def
  interesting_string_types_def default_interesting_string_types_def
  py_isspace_def

lemmas parse_eval =
  parse_answer_block_def variants_block_of_def parse_multiple_choice_def parse_matching_def
  parse_short_answer_def text_answer_input_def checkbox_input_def guid_input_attrs_def
  clean_text_def py_strip_def py_chr_def variant_prefix_def str_int_def no_data_def
  plain_lib_def rows_have_cells_def in_cell_def spec_matching_options_def
  spec_matching_option_def cell_before_def re_match_number_def py_isdecimal_def Let_def

lemmas extract_eval =
  parse_task_block_def extract_guid_def extract_task_id_def extract_question_def
  extract_images_def extract_kes_def default_parser_def

lemmas format_eval =
  blank_task_def default_format_answer_def format_multiple_choice_def format_matching_def
  num_variants_of_def py_iter_def py_str_def

section \<open>Lemmas on strings and bit lists\<close>

lemma py_replace_char: "py_replace [a] [b] s = map (\<lambda>c. if c = a then b else c) s"
  by (induction s) auto

lemma py_replace_delete: "py_replace [a] [] s = filter (\<lambda>c. c \<noteq> a) s"
  by (induction s) auto

lemma concat_singletons: "concat (map (\<lambda>c. [c]) s) = s"
  by (induction s) auto

lemma set_bits_length: "length (set_bits idxs n bits) = length bits"
  by (induction idxs arbitrary: bits) auto

lemma set_bits_nth:
  "j < length bits \<Longrightarrow> length bits = nat n \<Longrightarrow>
   set_bits idxs n bits ! j = (if int j \<in> set idxs then ascii ''1'' else bits ! j)"
proof (induction idxs arbitrary: bits)
  case Nil
  then show ?case by simp
next
  case (Cons idx idxs)
  then show ?case
    by (auto simp: nth_list_update)
qed

lemma set_bits_unit:
  "\<forall>b \<in> set bits. length b = 1 \<Longrightarrow> \<forall>b \<in> set (set_bits idxs n bits). length b = 1"
proof (induction idxs arbitrary: bits)
  case Nil
  then show ?case by simp
next
  case (Cons idx idxs)
  have "\<forall>b \<in> set (bits[nat idx := ascii ''1'']). length b = 1"
    using Cons.prems by (auto simp: ascii_def dest!: set_update_subset_insert [THEN subsetD])
  with Cons show ?case by auto
qed

lemma mark_bits_ints: "mark_bits (map PInt idxs) n bits = Inr (set_bits idxs n bits)"
  by (induction idxs arbitrary: bits) auto

lemma indices_member:
  "int j \<in> set (binary_string_to_indices s) \<longleftrightarrow> j < length s \<and> s ! j = 49"
  by (auto simp: binary_string_to_indices_def in_set_enumerate_eq image_iff)

lemma concat_bits_length:
  "\<forall>b \<in> set bits. length b = 1 \<Longrightarrow> length (concat bits) = length bits"
  by (induction bits) auto

lemma concat_bits_nth:
  "\<forall>b \<in> set bits. length b = 1 \<Longrightarrow> j < length bits \<Longrightarrow> concat bits ! j = hd (bits ! j)"
proof (induction bits arbitrary: j)
  case Nil
  then show ?case by simp
next
  case (Cons b bits)
  then obtain c where b: "b = [c]" by (cases b) auto
  show ?case
  proof (cases j)
    case 0
    then show ?thesis using b by simp
  next
    case (Suc k)
    then show ?thesis using Cons b by simp
  qed
qed

lemma bits_string_length:
  "length (concat (set_bits idxs n (replicate (nat n) (ascii ''0'')))) = nat n"
proof -
  have "\<forall>b \<in> set (set_bits idxs n (replicate (nat n) (ascii ''0''))). length b = 1"
    by (rule set_bits_unit) (simp add: ascii_def)
  then show ?thesis by (simp add: concat_bits_length set_bits_length)
qed

lemma bits_string_nth:
  assumes "j < nat n"
  shows "concat (set_bits idxs n (replicate (nat n) (ascii ''0''))) ! j =
           (if int j \<in> set idxs then 49 else 48)"
proof -
  have u: "\<forall>b \<in> set (set_bits idxs n (replicate (nat n) (ascii ''0''))). length b = 1"
    by (rule set_bits_unit) (simp add: ascii_def)
  have "concat (set_bits idxs n (replicate (nat n) (ascii ''0''))) ! j =
          hd (set_bits idxs n (replicate (nat n) (ascii ''0'')) ! j)"
    using assms by (simp add: concat_bits_nth [OF u] set_bits_length)
  also have "\<dots> = (if int j \<in> set idxs then 49 else 48)"
    using assms by (simp add: set_bits_nth ascii_def)
  finally show ?thesis .
qed

lemma bits_string_eq:
  assumes "\<And>j. j < nat n \<Longrightarrow> (if int j \<in> set idxs then 49 else 48) = c"
  shows "concat (set_bits idxs n (replicate (nat n) (ascii ''0''))) = replicate (nat n) c"
proof (rule nth_equalityI)
  show "length (concat (set_bits idxs n (replicate (nat n) (ascii ''0'')))) =
          length (replicate (nat n) c)"
    by (simp add: bits_string_length)
next
  fix j assume "j < length (concat (set_bits idxs n (replicate (nat n) (ascii ''0''))))"
  then have j: "j < nat n" by (simp add: bits_string_length)
  then show "concat (set_bits idxs n (replicate (nat n) (ascii ''0''))) ! j =
               replicate (nat n) c ! j"
    using assms [OF j] by (simp add: bits_string_nth)
qed

section \<open>Lemmas on formatting\<close>

lemma format_answer_not_short:
  "task_type task \<noteq> SHORT_ANSWER \<Longrightarrow>
   format_answer cls cstr task u = default_format_answer cstr task u"
  by (cases cls) auto

lemma format_multiple_choice_ints:
  "format_multiple_choice task (PList (map PInt idxs)) =
     Inr (concat (set_bits idxs (num_variants_of task)
            (replicate (nat (num_variants_of task)) (ascii ''0''))))"
  "format_multiple_choice task (PTuple (map PInt idxs)) =
     Inr (concat (set_bits idxs (num_variants_of task)
            (replicate (nat (num_variants_of task)) (ascii ''0''))))"
  by (simp_all add: format_multiple_choice_def py_iter_def mark_bits_ints Let_def)

lemma join_letters_total:
  "\<forall>l \<in> set ls. map_of d l \<noteq> None \<Longrightarrow>
   join_letters cstr d ls = Inr (concat (map (\<lambda>l. py_str cstr (the (map_of d l))) ls))"
  by (induction ls) auto

lemma join_letters_cong:
  "map_of d = map_of d' \<Longrightarrow> join_letters cstr d ls = join_letters cstr d' ls"
  by (induction ls) (auto split: option.splits)

lemma sort_keys: "sort (map fst d) = map fst (sort_key fst d)"
  by (rule properties_for_sort) (simp_all add: sorted_sort_key)

lemma sort_mset_eq: "mset xs = mset ys \<Longrightarrow> sort xs = sort (ys :: 'a :: linorder list)"
  by (rule properties_for_sort) simp_all

lemma format_matching_dict:
  assumes "distinct (map fst d)"
  shows "format_matching cstr (PDict d) =
           Inr (concat (map (\<lambda>kv. py_str cstr (snd kv)) (sort_key fst d)))"
proof -
  have "\<forall>l \<in> set (sort (map fst d)). map_of d l \<noteq> None"
    by (auto simp: map_of_eq_None_iff)
  then have "join_letters cstr d (sort (map fst d)) =
      Inr (concat (map (\<lambda>l. py_str cstr (the (map_of d l))) (sort (map fst d))))"
    by (rule join_letters_total)
  also have "map (\<lambda>l. py_str cstr (the (map_of d l))) (sort (map fst d)) =
      map (\<lambda>kv. py_str cstr (snd kv)) (sort_key fst d)"
    unfolding sort_keys map_map
  proof (rule map_cong [OF refl])
    fix kv assume "kv \<in> set (sort_key fst d)"
    then have "(fst kv, snd kv) \<in> set d" by simp
    with assms have "map_of d (fst kv) = Some (snd kv)" by (rule map_of_is_SomeI)
    then show "((\<lambda>l. py_str cstr (the (map_of d l))) \<circ> fst) kv = py_str cstr (snd kv)"
      by simp
  qed
  finally show ?thesis by (simp add: format_matching_def)
qed

lemma format_matching_order:
  assumes "distinct (map fst d)" "distinct (map fst d')" "set d = set d'"
  shows "format_matching cstr (PDict d) = format_matching cstr (PDict d')"
proof -
  have m: "map_of d = map_of d'"
    using assms by (simp add: map_of_inject_set)
  have "distinct d" "distinct d'"
    using assms(1,2) by (simp_all add: distinct_map)
  with assms(3) have "mset d = mset d'"
    by (simp add: set_eq_iff_mset_eq_distinct)
  then have "mset (map fst d) = mset (map fst d')" by (metis mset_map)
  then have "sort (map fst d) = sort (map fst d')" by (rule sort_mset_eq)
  with m show ?thesis
    by (simp add: format_matching_def join_letters_cong [OF m])
qed

section \<open>Lemmas on the classifier and on extraction\<close>

lemma list_all_enumerate_snd:
  "list_all Q xs \<Longrightarrow> list_all (\<lambda>p. Q (snd p)) (enumerate n xs)"
  by (induction xs arbitrary: n) auto

lemma enumerate_bound:
  "length xs \<le> b \<Longrightarrow> list_all (\<lambda>p. fst p < b) (enumerate 0 xs)"
  by (auto simp: list_all_iff in_set_enumerate_eq)


lemma map_filter_append:
  "List.map_filter f (xs @ ys) = List.map_filter f xs @ List.map_filter f ys"
  by (simp add: List.map_filter_def)

lemma multiple_choice_rows_ok:
  "list_all (\<lambda>p. find_tag doc (snd p) (ascii ''input'') checkbox_input = None
                   \<or> find_all doc (snd p) (ascii ''td'') [] \<noteq> []) rows \<Longrightarrow>
   \<exists>vs. multiple_choice_rows doc rows acc = Inr vs"
proof (induction rows arbitrary: acc)
  case Nil
  then show ?case by simp
next
  case (Cons p rows)
  obtain idx row where p: "p = (idx, row)" by (cases p)
  from Cons.prems
  have rest: "list_all (\<lambda>p. find_tag doc (snd p) (ascii ''input'') checkbox_input = None
                   \<or> find_all doc (snd p) (ascii ''td'') [] \<noteq> []) rows"
    by simp
  show ?case
  proof (cases "find_tag doc row (ascii ''input'') checkbox_input")
    case None
    then show ?thesis using Cons.IH [OF rest] p by simp
  next
    case (Some cb)
    with Cons.prems p obtain c cells where "find_all doc row (ascii ''td'') [] = c # cells"
      by (cases "find_all doc row (ascii ''td'') []") auto
    then show ?thesis using Cons.IH [OF rest] p Some by (simp add: Let_def)
  qed
qed

lemma multiple_choice_rows_none:
  "list_all (\<lambda>p. find_tag doc (snd p) (ascii ''input'') checkbox_input = None) rows \<Longrightarrow>
   multiple_choice_rows doc rows acc = Inr acc"
  by (induction rows arbitrary: acc) auto

lemma parse_multiple_choice_ok:
  assumes "rows_have_cells doc vb"
  shows "\<exists>vs. parse_multiple_choice doc vb =
           Inr (MULTIPLE_CHOICE, no_data\<lparr>kw_answer_variants := Some vs\<rparr>)"
proof -
  let ?rows = "find_all doc vb (ascii ''tr'') [(ascii ''class'', ascii ''active-distractor'')]"
  have "list_all (\<lambda>p. find_tag doc (snd p) (ascii ''input'') checkbox_input = None
                   \<or> find_all doc (snd p) (ascii ''td'') [] \<noteq> []) (enumerate 0 ?rows)"
    using list_all_enumerate_snd [OF assms [unfolded rows_have_cells_def]] by simp
  then obtain vs where "multiple_choice_rows doc (enumerate 0 ?rows) [] = Inr vs"
    using multiple_choice_rows_ok by blast
  then show ?thesis by (auto simp: parse_multiple_choice_def)
qed


lemma parse_short_answer_type:
  "\<exists>u. parse_short_answer L doc vb = (SHORT_ANSWER, no_data\<lparr>kw_answer_unit := u\<rparr>)"
  unfolding parse_short_answer_def Let_def by (intro exI) (rule refl)

lemma spec_option_default:
  "find_parent doc sel (ascii ''td'') = Some cell \<Longrightarrow>
   find_previous_sibling doc cell (ascii ''td'') = None \<Longrightarrow>
   spec_matching_option doc (idx, sel) =
     \<lparr>letter = [1040 + idx], option_text = variant_prefix @ [1040 + idx],
      select_name = get_attr doc sel (ascii ''name'') (ascii ''ans'' @ str_int (int idx))\<rparr>"
  by (simp add: spec_matching_option_def cell_before_def Let_def)

lemma spec_option_cell:
  "find_parent doc sel (ascii ''td'') = Some cell \<Longrightarrow>
   find_previous_sibling doc cell (ascii ''td'') = Some prev \<Longrightarrow>
   spec_matching_option doc (idx, sel) =
     \<lparr>letter = clean_text (get_text doc prev),
      option_text = variant_prefix @ clean_text (get_text doc prev),
      select_name = get_attr doc sel (ascii ''name'') (ascii ''ans'' @ str_int (int idx))\<rparr>"
  by (simp add: spec_matching_option_def cell_before_def Let_def)

lemma matching_options_loop_total:
  "list_all (\<lambda>p. fst p < 1113072) xs \<Longrightarrow>
   matching_options_loop doc xs acc =
     Inr (acc @ map (spec_matching_option doc) (filter (in_cell doc) xs))"
proof (induction xs arbitrary: acc)
  case Nil
  then show ?case by simp
next
  case (Cons p xs)
  obtain idx sel where p: "p = (idx, sel)" by (cases p)
  from Cons.prems have idx: "idx < 1113072" and rest: "list_all (\<lambda>p. fst p < 1113072) xs"
    using p by simp_all
  show ?case
  proof (cases "find_parent doc sel (ascii ''td'')")
    case None
    then show ?thesis using Cons.IH [OF rest] p by (simp add: in_cell_def)
  next
    case (Some cell)
    note parent = this
    show ?thesis
    proof (cases "find_previous_sibling doc cell (ascii ''td'')")
      case None
      then show ?thesis using Cons.IH [OF rest] p parent idx
        by (simp add: in_cell_def spec_option_default py_chr_def)
    next
      case (Some prev)
      then show ?thesis using Cons.IH [OF rest] p parent
        by (simp add: in_cell_def spec_option_cell)
    qed
  qed
qed


lemma parse_matching_total:
  assumes "length (find_all doc vb (ascii ''select'') []) \<le> 1113072"
  shows "\<exists>cs. parse_matching L doc vb =
           Inr (MATCHING,
                no_data\<lparr>kw_matching_options :=
                          Some (map (spec_matching_option doc)
                                  (filter (in_cell doc)
                                     (enumerate 0 (find_all doc vb (ascii ''select'') [])))),
                        kw_matching_choices := Some cs\<rparr>)"
proof -
  have "list_all (\<lambda>p. fst p < 1113072) (enumerate 0 (find_all doc vb (ascii ''select'') []))"
    using assms by (rule enumerate_bound)
  from matching_options_loop_total [OF this, of doc "[]"]
  have "parse_matching L doc vb =
           Inr (MATCHING,
                no_data\<lparr>kw_matching_options :=
                          Some (map (spec_matching_option doc)
                                  (filter (in_cell doc)
                                     (enumerate 0 (find_all doc vb (ascii ''select'') [])))),
                        kw_matching_choices :=
                          Some (matching_choices_loop L doc
                                  (find_all doc vb (ascii ''tr'') []) [])\<rparr>)"
    by (simp add: parse_matching_def Let_def)
  then show ?thesis by (intro exI)
qed


lemma collect_tasks_acc:
  "collect_tasks L P doc bs tasks = tasks @ List.map_filter (parse_task_block L P doc) bs"
  by (induction bs arbitrary: tasks) (auto simp: List.map_filter_simps split: option.splits)

lemma no_guid_no_task:
  "find_tag doc block (ascii ''input'') guid_input_attrs = None \<Longrightarrow>
   parse_task_block L P doc block = None"
  by (simp add: parse_task_block_def extract_guid_def)

lemma map_filter_has_guid:
  "List.map_filter (parse_task_block L P doc) bs =
   List.map_filter (parse_task_block L P doc)
     (filter (\<lambda>b. find_tag doc b (ascii ''input'') guid_input_attrs \<noteq> None) bs)"
  by (induction bs) (auto simp: List.map_filter_simps no_guid_no_task split: option.splits)

section \<open>The claims\<close>

text \<open>
  C1. For every response-code string the result-code classifier gives Correct on "1"
  and on "3", Incorrect on "2", and Error on every other string ("0" and any
  unrecognised code alike); no string is classified PartiallyCorrect.
\<close>

theorem parse_result_code_table:
  "parse_result_code code =
     (if code = ascii ''1'' \<or> code = ascii ''3'' then CORRECT
      else if code = ascii ''2'' then INCORRECT
      else ERROR)
   \<and> parse_result_code code \<noteq> PARTIALLY_CORRECT
   \<and> parse_result_code (ascii ''0'') = ERROR"
  by (simp add: parse_result_code_def code_map_def ascii_def)

text \<open>
  C2, as amended. The classifier looks into the variants block (the first \<open>div\<close> of
  class \<open>varinats-block\<close> inside the fragment, or the fragment itself when there is
  none) and applies its rules there in a fixed order, the first match winning: a text
  input named "answer" gives FreeText; otherwise a checkbox gives MultiSelect (stated
  here for blocks whose active rows with a checkbox all have a cell); otherwise a
  \<open>select\<close> gives Matching (with at most 1113072 selects, so that every default letter
  is a code point); otherwise the result is FreeText with no unit hint.
\<close>

theorem answer_block_first_match:
  "(find_tag doc (variants_block_of doc block) (ascii ''input'') text_answer_input \<noteq> None \<longrightarrow>
      (\<exists>u. parse_answer_block L doc block =
              Inr (SHORT_ANSWER, no_data\<lparr>kw_answer_unit := u\<rparr>)))
   \<and> (find_tag doc (variants_block_of doc block) (ascii ''input'') text_answer_input = None
      \<and> find_all doc (variants_block_of doc block) (ascii ''input'') checkbox_input \<noteq> []
      \<and> rows_have_cells doc (variants_block_of doc block) \<longrightarrow>
      (\<exists>vs. parse_answer_block L doc block =
               Inr (MULTIPLE_CHOICE, no_data\<lparr>kw_answer_variants := Some vs\<rparr>)))
   \<and> (find_tag doc (variants_block_of doc block) (ascii ''input'') text_answer_input = None
      \<and> find_all doc (variants_block_of doc block) (ascii ''input'') checkbox_input = []
      \<and> find_all doc (variants_block_of doc block) (ascii ''select'') [] \<noteq> []
      \<and> length (find_all doc (variants_block_of doc block) (ascii ''select'') []) \<le> 1113072 \<longrightarrow>
      (\<exists>os cs. parse_answer_block L doc block =
                  Inr (MATCHING, no_data\<lparr>kw_matching_options := Some os,
                                         kw_matching_choices := Some cs\<rparr>)))
   \<and> (find_tag doc (variants_block_of doc block) (ascii ''input'') text_answer_input = None
      \<and> find_all doc (variants_block_of doc block) (ascii ''input'') checkbox_input = []
      \<and> find_all doc (variants_block_of doc block) (ascii ''select'') [] = [] \<longrightarrow>
      parse_answer_block L doc block = Inr (SHORT_ANSWER, no_data))"
proof (intro conjI impI)
  assume "find_tag doc (variants_block_of doc block) (ascii ''input'') text_answer_input \<noteq> None"
  then show "\<exists>u. parse_answer_block L doc block =
                   Inr (SHORT_ANSWER, no_data\<lparr>kw_answer_unit := u\<rparr>)"
    using parse_short_answer_type [of L doc "variants_block_of doc block"]
    by (auto simp: parse_answer_block_def Let_def)
next
  assume a: "find_tag doc (variants_block_of doc block) (ascii ''input'') text_answer_input = None
      \<and> find_all doc (variants_block_of doc block) (ascii ''input'') checkbox_input \<noteq> []
      \<and> rows_have_cells doc (variants_block_of doc block)"
  then have "rows_have_cells doc (variants_block_of doc block)" by simp
  from parse_multiple_choice_ok [OF this] a
  show "\<exists>vs. parse_answer_block L doc block =
               Inr (MULTIPLE_CHOICE, no_data\<lparr>kw_answer_variants := Some vs\<rparr>)"
    by (simp add: parse_answer_block_def Let_def)
next
  assume a: "find_tag doc (variants_block_of doc block) (ascii ''input'') text_answer_input = None
      \<and> find_all doc (variants_block_of doc block) (ascii ''input'') checkbox_input = []
      \<and> find_all doc (variants_block_of doc block) (ascii ''select'') [] \<noteq> []
      \<and> length (find_all doc (variants_block_of doc block) (ascii ''select'') []) \<le> 1113072"
  then have "length (find_all doc (variants_block_of doc block) (ascii ''select'') []) \<le> 1113072"
    by simp
  from parse_matching_total [OF this, of L] a
  show "\<exists>os cs. parse_answer_block L doc block =
                  Inr (MATCHING, no_data\<lparr>kw_matching_options := Some os,
                                         kw_matching_choices := Some cs\<rparr>)"
    by (auto simp: parse_answer_block_def Let_def)
next
  assume "find_tag doc (variants_block_of doc block) (ascii ''input'') text_answer_input = None
      \<and> find_all doc (variants_block_of doc block) (ascii ''input'') checkbox_input = []
      \<and> find_all doc (variants_block_of doc block) (ascii ''select'') [] = []"
  then show "parse_answer_block L doc block = Inr (SHORT_ANSWER, no_data)"
    by (simp add: parse_answer_block_def Let_def)
qed

text \<open>
  The four rules at four fragments: a text input beside a checkbox, an active row
  with a checkbox, two selects, and no control.
\<close>

theorem answer_block_first_match_witness:
  "(\<exists>u. parse_answer_block plain_lib doc_text [0] =
           Inr (SHORT_ANSWER, no_data\<lparr>kw_answer_unit := u\<rparr>))
   \<and> (\<exists>vs. parse_answer_block plain_lib doc_checkbox [0] =
           Inr (MULTIPLE_CHOICE, no_data\<lparr>kw_answer_variants := Some vs\<rparr>))
   \<and> (\<exists>os cs. parse_answer_block plain_lib doc_matching [0] =
           Inr (MATCHING, no_data\<lparr>kw_matching_options := Some os,
                                  kw_matching_choices := Some cs\<rparr>))
   \<and> parse_answer_block plain_lib doc_empty [0] = Inr (SHORT_ANSWER, no_data)"
proof -
  have t: "find_tag doc_text (variants_block_of doc_text [0]) (ascii ''input'')
             text_answer_input \<noteq> None"
    by (simp add: doc_text_def dom_eval variants_block_of_def text_answer_input_def)
  have c: "find_tag doc_checkbox (variants_block_of doc_checkbox [0]) (ascii ''input'')
             text_answer_input = None
      \<and> find_all doc_checkbox (variants_block_of doc_checkbox [0]) (ascii ''input'')
             checkbox_input \<noteq> []
      \<and> rows_have_cells doc_checkbox (variants_block_of doc_checkbox [0])"
    by (simp add: doc_checkbox_def dom_eval variants_block_of_def text_answer_input_def
        checkbox_input_def rows_have_cells_def)
  have m: "find_tag doc_matching (variants_block_of doc_matching [0]) (ascii ''input'')
             text_answer_input = None
      \<and> find_all doc_matching (variants_block_of doc_matching [0]) (ascii ''input'')
             checkbox_input = []
      \<and> find_all doc_matching (variants_block_of doc_matching [0]) (ascii ''select'') [] \<noteq> []
      \<and> length (find_all doc_matching (variants_block_of doc_matching [0])
                  (ascii ''select'') []) \<le> 1113072"
    by (simp add: doc_matching_def dom_eval variants_block_of_def text_answer_input_def
        checkbox_input_def)
  have e: "find_tag doc_empty (variants_block_of doc_empty [0]) (ascii ''input'')
             text_answer_input = None
      \<and> find_all doc_empty (variants_block_of doc_empty [0]) (ascii ''input'')
             checkbox_input = []
      \<and> find_all doc_empty (variants_block_of doc_empty [0]) (ascii ''select'') [] = []"
    by (simp add: doc_empty_def dom_eval variants_block_of_def text_answer_input_def
        checkbox_input_def)
  from answer_block_first_match [of doc_text "[0]" plain_lib] t
  have 1: "\<exists>u. parse_answer_block plain_lib doc_text [0] =
           Inr (SHORT_ANSWER, no_data\<lparr>kw_answer_unit := u\<rparr>)"
    by simp
  from answer_block_first_match [of doc_checkbox "[0]" plain_lib] c
  have 2: "\<exists>vs. parse_answer_block plain_lib doc_checkbox [0] =
           Inr (MULTIPLE_CHOICE, no_data\<lparr>kw_answer_variants := Some vs\<rparr>)"
    by simp
  from answer_block_first_match [of doc_matching "[0]" plain_lib] m
  have 3: "\<exists>os cs. parse_answer_block plain_lib doc_matching [0] =
           Inr (MATCHING, no_data\<lparr>kw_matching_options := Some os,
                                  kw_matching_choices := Some cs\<rparr>)"
    by simp
  from answer_block_first_match [of doc_empty "[0]" plain_lib] e
  have 4: "parse_answer_block plain_lib doc_empty [0] = Inr (SHORT_ANSWER, no_data)"
    by simp
  from 1 2 3 4 show ?thesis by (intro conjI)
qed

text \<open>
  The claim as stated fails: in this fragment a text input named "answer" is present,
  and the fragment is classified MultiSelect, because its variants block holds only a
  checkbox.
\<close>

theorem answer_block_scope_counterexample:
  "find_tag doc_text_outside [0] (ascii ''input'') text_answer_input = Some [0, 1]
   \<and> parse_answer_block plain_lib doc_text_outside [0] =
       Inr (MULTIPLE_CHOICE, no_data\<lparr>kw_answer_variants := Some []\<rparr>)"
  by (simp add: doc_text_outside_def dom_eval parse_eval)

text \<open>
  C3, as amended. For every MultiSelect task and every list or tuple of integer
  indices, \<open>format_answer\<close> gives a string of the characters 0 and 1 (code points 48
  and 49) whose width is the number of options when the task has at least one, and 5
  when the option list is absent or empty; the character at position \<open>j\<close> is 1 exactly
  when \<open>j\<close> is among the indices, so indices out of range (negative ones too) leave no
  trace. With \<open>n \<ge> 1\<close> options the indices \<open>0, \<dots>, n-1\<close> give \<open>n\<close> ones and no index gives
  \<open>n\<close> zeros. A string is passed through as it is.
\<close>

theorem multiple_choice_bit_string:
  assumes "task_type task = MULTIPLE_CHOICE"
  shows "format_answer cls cstr task (PStr s) = Inr s
    \<and> (\<exists>r. format_answer cls cstr task (PList (map PInt idxs)) = Inr r
          \<and> format_answer cls cstr task (PTuple (map PInt idxs)) = Inr r
          \<and> length r = (case answer_variants task of None \<Rightarrow> 5
                         | Some vs \<Rightarrow> if vs = [] then 5 else length vs)
          \<and> (\<forall>j < length r. r ! j = (if int j \<in> set idxs then 49 else 48)))
    \<and> (answer_variants task = Some opts \<and> opts \<noteq> [] \<longrightarrow>
          format_answer cls cstr task (PList (map PInt (map int [0..<length opts]))) =
            Inr (replicate (length opts) 49)
          \<and> format_answer cls cstr task (PList []) = Inr (replicate (length opts) 48))"
proof -
  let ?n = "num_variants_of task"
  let ?r = "concat (set_bits idxs ?n (replicate (nat ?n) (ascii ''0'')))"
  have ns: "task_type task \<noteq> SHORT_ANSWER" using assms by simp
  have f: "format_answer cls cstr task u = format_multiple_choice task u" for u
    using assms by (simp add: format_answer_not_short [OF ns] default_format_answer_def)
  have 1: "format_multiple_choice task (PStr s) = Inr s"
    by (simp add: format_multiple_choice_def)
  have 2: "format_multiple_choice task (PList (map PInt idxs)) = Inr ?r"
    by (simp add: format_multiple_choice_ints)
  have 3: "format_multiple_choice task (PTuple (map PInt idxs)) = Inr ?r"
    by (simp add: format_multiple_choice_ints)
  have 4: "length ?r = (case answer_variants task of None \<Rightarrow> 5
                         | Some vs \<Rightarrow> if vs = [] then 5 else length vs)"
    by (simp add: bits_string_length) (simp add: num_variants_of_def split: option.splits)
  have 5: "\<forall>j < length ?r. ?r ! j = (if int j \<in> set idxs then 49 else 48)"
    by (simp add: bits_string_length bits_string_nth)
  have 6: "format_multiple_choice task (PList (map PInt (map int [0..<length opts]))) =
            Inr (replicate (length opts) 49)
          \<and> format_multiple_choice task (PList []) = Inr (replicate (length opts) 48)"
    if o: "answer_variants task = Some opts \<and> opts \<noteq> []"
  proof -
    have n: "num_variants_of task = int (length opts)"
      using o by (simp add: num_variants_of_def)
    have "concat (set_bits (map int [0..<length opts]) (int (length opts))
                 (replicate (nat (int (length opts))) (ascii ''0''))) =
          replicate (nat (int (length opts))) 49"
      by (rule bits_string_eq) auto
    then have a: "format_multiple_choice task (PList (map PInt (map int [0..<length opts]))) =
           Inr (replicate (length opts) 49)"
      unfolding format_multiple_choice_ints n by simp
    have "concat (set_bits [] (int (length opts))
                 (replicate (nat (int (length opts))) (ascii ''0''))) =
          replicate (nat (int (length opts))) 48"
      by (rule bits_string_eq) auto
    then have "format_multiple_choice task (PList (map PInt [])) =
           Inr (replicate (length opts) 48)"
      unfolding format_multiple_choice_ints n by simp
    with a show ?thesis by simp
  qed
  show ?thesis unfolding f using 1 2 3 4 5 6 by blast
qed

text \<open>Five options and the indices 0 and 2, with 7 and -1 out of range: "10100".\<close>

theorem multiple_choice_bit_string_witness:
  "task_type (blank_task MULTIPLE_CHOICE
       (Some (replicate 5 \<lparr>index = 0, variant_text = [], input_name = []\<rparr>))) = MULTIPLE_CHOICE
   \<and> format_answer DefaultChecker no_cstr
       (blank_task MULTIPLE_CHOICE
          (Some (replicate 5 \<lparr>index = 0, variant_text = [], input_name = []\<rparr>)))
       (PList (map PInt [0, 2, 7, - 1])) = Inr (ascii ''10100'')
   \<and> format_answer DefaultChecker no_cstr
       (blank_task MULTIPLE_CHOICE
          (Some (replicate 5 \<lparr>index = 0, variant_text = [], input_name = []\<rparr>)))
       (PList []) = Inr (ascii ''00000'')"
  using multiple_choice_bit_string
    [of "blank_task MULTIPLE_CHOICE
           (Some (replicate 5 \<lparr>index = 0, variant_text = [], input_name = []\<rparr>))"
        DefaultChecker no_cstr "[]" "[0, 2, 7, - 1]"
        "replicate 5 \<lparr>index = 0, variant_text = [], input_name = []\<rparr>"]
  by (simp add: format_eval ascii_def eval_nat_numeral)

text \<open>
  The claim as stated fails: this task has an option list with no option, and the
  empty index set gives five zeros, not a string of width zero.
\<close>

theorem multiple_choice_empty_options_counterexample:
  "answer_variants (blank_task MULTIPLE_CHOICE (Some [])) = Some []
   \<and> format_answer DefaultChecker no_cstr (blank_task MULTIPLE_CHOICE (Some [])) (PList [])
       = Inr (ascii ''00000'')
   \<and> length (ascii ''00000'') \<noteq> length ([] :: AnswerVariant list)"
  by (simp add: format_eval ascii_def eval_nat_numeral)

text \<open>
  C4. For every Matching task and every dictionary from letters to chosen numbers,
  \<open>format_answer\<close> concatenates the chosen numbers in the order of the sorted letters,
  so two dictionaries with the same items in different insertion orders give the same
  string; the dictionaries that map the Cyrillic A to "2" and B to "4", in either
  order, give "24"; a string passes through as it is, and the elements of a list or
  tuple are concatenated in their order.
\<close>

theorem matching_sorted_by_letter:
  assumes "task_type task = MATCHING"
  shows "(distinct (map fst d) \<longrightarrow>
            format_answer cls cstr task (PDict d) =
              Inr (concat (map (\<lambda>kv. py_str cstr (snd kv)) (sort_key fst d))))
       \<and> (distinct (map fst d) \<and> distinct (map fst d') \<and> set d = set d' \<longrightarrow>
            format_answer cls cstr task (PDict d) = format_answer cls cstr task (PDict d'))
       \<and> format_answer cls cstr task
            (PDict [([1040], PStr (ascii ''2'')), ([1041], PStr (ascii ''4''))])
            = Inr (ascii ''24'')
       \<and> format_answer cls cstr task
            (PDict [([1041], PStr (ascii ''4'')), ([1040], PStr (ascii ''2''))])
            = Inr (ascii ''24'')
       \<and> format_answer cls cstr task (PStr s) = Inr s
       \<and> format_answer cls cstr task (PList xs) = Inr (concat (map (py_str cstr) xs))
       \<and> format_answer cls cstr task (PTuple xs) = Inr (concat (map (py_str cstr) xs))"
proof -
  have ns: "task_type task \<noteq> SHORT_ANSWER" using assms by simp
  have f: "format_answer cls cstr task u = format_matching cstr u" for u
    using assms by (simp add: format_answer_not_short [OF ns] default_format_answer_def)
  have 1: "distinct (map fst d) \<longrightarrow>
            format_matching cstr (PDict d) =
              Inr (concat (map (\<lambda>kv. py_str cstr (snd kv)) (sort_key fst d)))"
    by (simp add: format_matching_dict)
  have 2: "distinct (map fst d) \<and> distinct (map fst d') \<and> set d = set d' \<longrightarrow>
            format_matching cstr (PDict d) = format_matching cstr (PDict d')"
    using format_matching_order [of d d' cstr] by blast
  have 3: "format_matching cstr
             (PDict [([1040], PStr (ascii ''2'')), ([1041], PStr (ascii ''4''))])
            = Inr (ascii ''24'')"
    by (simp add: format_matching_def py_str_def ascii_def)
  have 4: "format_matching cstr
             (PDict [([1041], PStr (ascii ''4'')), ([1040], PStr (ascii ''2''))])
            = Inr (ascii ''24'')"
    by (simp add: format_matching_def py_str_def ascii_def)
  have 5: "format_matching cstr (PStr s) = Inr s"
    by (simp add: format_matching_def)
  have 6: "format_matching cstr (PList xs) = Inr (concat (map (py_str cstr) xs))"
    by (simp add: format_matching_def)
  have 7: "format_matching cstr (PTuple xs) = Inr (concat (map (py_str cstr) xs))"
    by (simp add: format_matching_def)
  show ?thesis
    unfolding f using 1 2 3 4 5 6 7 by blast
qed

text \<open>
  Three letters given out of order, with a number that is an integer: the values come
  out in the order A, B, V of the letters.
\<close>

theorem matching_sorted_by_letter_witness:
  "task_type (blank_task MATCHING None) = MATCHING
   \<and> distinct (map fst [([1042::nat], PInt 3), ([1040], PStr (ascii ''2'')), ([1041], PInt 4)])
   \<and> format_answer RussianChecker no_cstr (blank_task MATCHING None)
       (PDict [([1042], PInt 3), ([1040], PStr (ascii ''2'')), ([1041], PInt 4)])
       = Inr (ascii ''243'')
   \<and> format_answer RussianChecker no_cstr (blank_task MATCHING None)
       (PDict [([1042], PInt 3), ([1040], PStr (ascii ''2'')), ([1041], PInt 4)])
     = format_answer RussianChecker no_cstr (blank_task MATCHING None)
       (PDict [([1040], PStr (ascii ''2'')), ([1041], PInt 4), ([1042], PInt 3)])"
proof -
  let ?d = "[([1042::nat], PInt 3), ([1040], PStr (ascii ''2'')), ([1041], PInt 4)]"
  let ?d' = "[([1040::nat], PStr (ascii ''2'')), ([1041], PInt 4), ([1042], PInt 3)]"
  have h: "task_type (blank_task MATCHING None) = MATCHING"
    by (simp add: blank_task_def)
  have d: "distinct (map fst ?d)" "distinct (map fst ?d')" "set ?d = set ?d'"
    by auto
  have v: "concat (map (\<lambda>kv. py_str no_cstr (snd kv)) (sort_key fst ?d)) = ascii ''243''"
    by (simp add: py_str_def str_int_def digits.simps ascii_def)
  note m = matching_sorted_by_letter
             [OF h, where d = ?d and d' = ?d' and cls = RussianChecker and cstr = no_cstr]
  from m d(1) have 1: "format_answer RussianChecker no_cstr (blank_task MATCHING None) (PDict ?d)
                  = Inr (concat (map (\<lambda>kv. py_str no_cstr (snd kv)) (sort_key fst ?d)))"
    by blast
  from m d have 2: "format_answer RussianChecker no_cstr (blank_task MATCHING None) (PDict ?d)
                = format_answer RussianChecker no_cstr (blank_task MATCHING None) (PDict ?d')"
    by blast
  from h d(1) 1 2 v show ?thesis by simp
qed

text \<open>
  C5, as amended. For every FreeText task under the math or physics checker and every
  caller value, \<open>format_answer\<close> takes \<open>str\<close> of the value, strips it, turns every comma
  (44) into a full stop (46) and removes every space character (32); other
  whitespace inside the value stays. The value "3,5" gives "3.5".
\<close>

theorem numeric_short_answer_normalised:
  assumes "task_type task = SHORT_ANSWER" "cls = MathProfChecker \<or> cls = PhysicsChecker"
  shows "format_answer cls cstr task v =
           Inr (filter (\<lambda>c. c \<noteq> 32)
                  (map (\<lambda>c. if c = 44 then 46 else c) (py_strip (py_str cstr v))))
       \<and> (\<exists>r. format_answer cls cstr task v = Inr r \<and> 44 \<notin> set r \<and> 32 \<notin> set r)
       \<and> format_answer cls cstr task (PStr (ascii ''3,5'')) = Inr (ascii ''3.5'')"
proof -
  have g: "format_answer cls cstr task u =
           Inr (filter (\<lambda>c. c \<noteq> 32)
                  (map (\<lambda>c. if c = 44 then 46 else c) (py_strip (py_str cstr u))))" for u
    using assms
    by (auto simp: format_math_short_answer_def format_physics_short_answer_def ascii_def
        py_replace_char py_replace_delete)
  have e: "filter (\<lambda>c. c \<noteq> 32)
             (map (\<lambda>c. if c = 44 then 46 else c) (py_strip (py_str cstr (PStr (ascii ''3,5'')))))
           = ascii ''3.5''"
    by (simp add: py_str_def py_strip_def ascii_def py_isspace_def)
  show ?thesis unfolding g using e by auto
qed

text \<open>A value with blanks around it, a space inside and two commas.\<close>

theorem numeric_short_answer_normalised_witness:
  "task_type (blank_task SHORT_ANSWER None) = SHORT_ANSWER
   \<and> format_answer MathProfChecker no_cstr (blank_task SHORT_ANSWER None)
       (PStr (ascii '' 1 000,5,2 '')) = Inr (ascii ''1000.5.2'')
   \<and> format_answer PhysicsChecker no_cstr (blank_task SHORT_ANSWER None) (PInt (- 12))
       = Inr (ascii ''-12'')"
proof -
  have h: "task_type (blank_task SHORT_ANSWER None) = SHORT_ANSWER"
    by (simp add: blank_task_def)
  have a: "filter (\<lambda>c. c \<noteq> 32) (map (\<lambda>c. if c = 44 then 46 else c)
             (py_strip (py_str no_cstr (PStr (ascii '' 1 000,5,2 ''))))) = ascii ''1000.5.2''"
    by (simp add: py_str_def py_strip_def ascii_def py_isspace_def)
  have b: "filter (\<lambda>c. c \<noteq> 32) (map (\<lambda>c. if c = 44 then 46 else c)
             (py_strip (py_str no_cstr (PInt (- 12))))) = ascii ''-12''"
    by (simp add: py_str_def py_strip_def str_int_def digits.simps ascii_def py_isspace_def)
  from numeric_short_answer_normalised
         [OF h, of MathProfChecker no_cstr "PStr (ascii '' 1 000,5,2 '')"]
       numeric_short_answer_normalised [OF h, of PhysicsChecker no_cstr "PInt (- 12)"]
       h a b
  show ?thesis by simp
qed

text \<open>
  The claim as stated fails: a tab (code point 9) is whitespace, and it stays inside
  the formatted value under both checkers.
\<close>

theorem numeric_short_answer_tab_counterexample:
  "format_answer MathProfChecker no_cstr (blank_task SHORT_ANSWER None) (PStr [49, 9, 50])
     = Inr [49, 9, 50]
   \<and> format_answer PhysicsChecker no_cstr (blank_task SHORT_ANSWER None) (PStr [49, 9, 50])
     = Inr [49, 9, 50]
   \<and> py_isspace 9"
  by (simp add: blank_task_def format_math_short_answer_def format_physics_short_answer_def
      py_str_def py_strip_def ascii_def py_isspace_def)

text \<open>
  C6, as amended. For every fragment with no \<open>input\<close> element named "guid", hidden or
  not (the lookup is by tag name and \<open>name\<close> attribute alone), the identifier is not
  found and \<open>parse_task_block\<close> returns no record, whatever the parser class and the
  libraries do; in the loop of \<open>parse_page\<close> the fragment adds nothing and the
  fragments before and after it are processed as without it. The records of a page are
  those of its fragments that have such a control, in document order.
\<close>

theorem missing_guid_skipped:
  "(find_tag doc block (ascii ''input'') guid_input_attrs = None \<longrightarrow>
      extract_guid doc block = None
      \<and> parse_task_block L P doc block = None
      \<and> collect_tasks L P doc (pre @ block # post) tasks =
          collect_tasks L P doc (pre @ post) tasks)
   \<and> collect_tasks L P doc bs tasks = tasks @ List.map_filter (parse_task_block L P doc) bs
   \<and> parse_page L P html =
       List.map_filter (parse_task_block L P (BeautifulSoup L html))
         (filter (\<lambda>b. find_tag (BeautifulSoup L html) b (ascii ''input'') guid_input_attrs \<noteq> None)
            (find_all (BeautifulSoup L html) [] (ascii ''div'')
               [(ascii ''class'', ascii ''qblock'')]))"
proof (intro conjI impI)
  assume a: "find_tag doc block (ascii ''input'') guid_input_attrs = None"
  then show "extract_guid doc block = None" by (simp add: extract_guid_def)
  from a show "parse_task_block L P doc block = None" by (rule no_guid_no_task)
  then show "collect_tasks L P doc (pre @ block # post) tasks =
          collect_tasks L P doc (pre @ post) tasks"
    by (simp add: collect_tasks_acc List.map_filter_simps map_filter_append)
next
  show "collect_tasks L P doc bs tasks = tasks @ List.map_filter (parse_task_block L P doc) bs"
    by (rule collect_tasks_acc)
next
  show "parse_page L P html =
       List.map_filter (parse_task_block L P (BeautifulSoup L html))
         (filter (\<lambda>b. find_tag (BeautifulSoup L html) b (ascii ''input'') guid_input_attrs \<noteq> None)
            (find_all (BeautifulSoup L html) [] (ascii ''div'')
               [(ascii ''class'', ascii ''qblock'')]))"
    using map_filter_has_guid [of L P "BeautifulSoup L html"]
    by (simp add: parse_page_def Let_def collect_tasks_acc)
qed

text \<open>
  A page of two fragments: the first has no "guid" control and gives nothing, the
  second gives its record, which is the whole output of the page.
\<close>

theorem missing_guid_skipped_witness:
  "find_tag doc_page [0] (ascii ''input'') guid_input_attrs = None
   \<and> parse_task_block page_lib (default_parser page_lib (ascii ''physics'')) doc_page [0] = None
   \<and> collect_tasks page_lib (default_parser page_lib (ascii ''physics'')) doc_page
       ([] @ [0] # [[1]]) []
     = collect_tasks page_lib (default_parser page_lib (ascii ''physics'')) doc_page
       ([] @ [[1]]) []
   \<and> parse_page page_lib (default_parser page_lib (ascii ''physics'')) []
     = [\<lparr>guid = ascii ''G1'', task_id = ascii ''A1'', subject = ascii ''physics'',
         task_type = SHORT_ANSWER, question_text = [], question_html = [],
         answer_variants = None, matching_options = None, matching_choices = None,
         answer_unit = None, images = [], kes_codes = [], metadata = []\<rparr>]"
proof -
  have h: "find_tag doc_page [0] (ascii ''input'') guid_input_attrs = None"
    by (simp add: doc_page_def dom_eval guid_input_attrs_def)
  have b: "BeautifulSoup page_lib [] = doc_page"
    by (simp add: page_lib_def)
  have q: "find_all doc_page [] (ascii ''div'') [(ascii ''class'', ascii ''qblock'')] = [[0], [1]]"
    by (simp add: doc_page_def dom_eval)
  have g: "find_tag doc_page [1] (ascii ''input'') guid_input_attrs \<noteq> None"
    by (simp add: doc_page_def dom_eval guid_input_attrs_def)
  have t: "parse_task_block page_lib (default_parser page_lib (ascii ''physics'')) doc_page [1]
     = Some \<lparr>guid = ascii ''G1'', task_id = ascii ''A1'', subject = ascii ''physics'',
         task_type = SHORT_ANSWER, question_text = [], question_html = [],
         answer_variants = None, matching_options = None, matching_choices = None,
         answer_unit = None, images = [], kes_codes = [], metadata = []\<rparr>"
    by (simp add: doc_page_def page_lib_def dom_eval parse_eval extract_eval)
  from missing_guid_skipped
         [of doc_page "[0]" page_lib "default_parser page_lib (ascii ''physics'')"
             "[]" "[[1]]" "[]" "[]" "[]"] h b q g t
  show ?thesis by (simp add: List.map_filter_simps)
qed

text \<open>
  The claim as stated fails: this fragment has no hidden control named "guid", only a
  visible text input of that name, and extraction gives its record.
\<close>

theorem visible_guid_counterexample:
  "find_tag doc_visible_guid [0] (ascii ''input'')
     [(ascii ''type'', ascii ''hidden''), (ascii ''name'', ascii ''guid'')] = None
   \<and> parse_task_block plain_lib (default_parser plain_lib (ascii ''physics''))
       doc_visible_guid [0]
     = Some \<lparr>guid = ascii ''G2'', task_id = ascii ''B7'', subject = ascii ''physics'',
         task_type = SHORT_ANSWER, question_text = [], question_html = [],
         answer_variants = None, matching_options = None, matching_choices = None,
         answer_unit = None, images = [], kes_codes = [], metadata = []\<rparr>"
  by (simp add: doc_visible_guid_def dom_eval parse_eval extract_eval)




text \<open>
  C8, as amended. A key that is not in the subject table makes \<open>get_subject_config\<close>,
  \<open>get_parser\<close> and \<open>get_checker\<close> raise \<open>ValueError\<close>, whatever is registered; for every
  key of the table the lookup succeeds and the configuration returned, also inside
  the parser and the checker, is that key's. In \<open>check_answer\<close> an exception of the
  exchange with the portal is caught and gives the result Error, while an exception
  of \<open>format_answer\<close> leaves \<open>check_answer\<close>: the configuration error is not the only
  one that reaches the caller.
\<close>

theorem subject_lookup:
  "(map_of SUBJECTS key = None \<longrightarrow>
      get_subject_config key = Inl ValueError
      \<and> get_parser parser_registry key = Inl ValueError
      \<and> get_checker checker_registry key = Inl ValueError)
   \<and> (key \<in> set (map fst SUBJECTS) \<longrightarrow>
      (\<exists>config. get_subject_config key = Inr config \<and> subject_key config = key
         \<and> map_of SUBJECTS key = Some config
         \<and> (\<exists>pc. get_parser parser_registry key = Inr (pc, config))
         \<and> (\<exists>cc. get_checker checker_registry key = Inr (cc, config))))
   \<and> (key \<notin> set (map fst SUBJECTS) \<longrightarrow> map_of SUBJECTS key = None)
   \<and> (format_answer cls cstr task user_input = Inr answer_str \<longrightarrow>
      (\<exists>resp. check_answer cls cstr send task user_input = Inr resp
         \<and> (send (guid task) answer_str = Inl e \<longrightarrow> result resp = ERROR \<and> error resp = Some e)))
   \<and> (format_answer cls cstr task user_input = Inl e \<longrightarrow>
      check_answer cls cstr send task user_input = Inl e)"
proof -
  have k: "key \<in> set (map fst SUBJECTS) \<Longrightarrow>
      key = ascii ''physics'' \<or> key = ascii ''math_prof'' \<or> key = ascii ''russian''"
    by (simp add: SUBJECTS_def)
  have 2: "key \<in> set (map fst SUBJECTS) \<longrightarrow>
      (\<exists>config. get_subject_config key = Inr config \<and> subject_key config = key
         \<and> map_of SUBJECTS key = Some config
         \<and> (\<exists>pc. get_parser parser_registry key = Inr (pc, config))
         \<and> (\<exists>cc. get_checker checker_registry key = Inr (cc, config)))"
  proof
    assume "key \<in> set (map fst SUBJECTS)"
    from k [OF this]
    show "\<exists>config. get_subject_config key = Inr config \<and> subject_key config = key
         \<and> map_of SUBJECTS key = Some config
         \<and> (\<exists>pc. get_parser parser_registry key = Inr (pc, config))
         \<and> (\<exists>cc. get_checker checker_registry key = Inr (cc, config))"
      by (auto simp: get_subject_config_def get_parser_def get_checker_def SUBJECTS_def
          SubjectConfig_init_def ascii_def split: option.splits)
  qed
  have 1: "map_of SUBJECTS key = None \<longrightarrow>
      get_subject_config key = Inl ValueError
      \<and> get_parser parser_registry key = Inl ValueError
      \<and> get_checker checker_registry key = Inl ValueError"
    by (simp add: get_subject_config_def get_parser_def get_checker_def)
  have 3: "key \<notin> set (map fst SUBJECTS) \<longrightarrow> map_of SUBJECTS key = None"
    by (simp add: map_of_eq_None_iff)
  have 4: "format_answer cls cstr task user_input = Inr answer_str \<longrightarrow>
      (\<exists>resp. check_answer cls cstr send task user_input = Inr resp
         \<and> (send (guid task) answer_str = Inl e \<longrightarrow> result resp = ERROR \<and> error resp = Some e))"
    by (simp add: check_answer_def)
  have 5: "format_answer cls cstr task user_input = Inl e \<longrightarrow>
      check_answer cls cstr send task user_input = Inl e"
    by (simp add: check_answer_def)
  from 1 2 3 4 5 show ?thesis by blast
qed

text \<open>
  The key "physics" is in the table and gives its configuration and the physics
  classes; "chemistry" is not and raises; a failed exchange gives the result Error.
\<close>

theorem subject_lookup_witness:
  "ascii ''physics'' \<in> set (map fst SUBJECTS)
   \<and> (\<exists>config. get_subject_config (ascii ''physics'') = Inr config
        \<and> subject_key config = ascii ''physics''
        \<and> get_parser PARSERS (ascii ''physics'') = Inr (PhysicsParser, config)
        \<and> get_checker CHECKERS (ascii ''physics'') = Inr (PhysicsChecker, config))
   \<and> map_of SUBJECTS (ascii ''chemistry'') = None
   \<and> get_subject_config (ascii ''chemistry'') = Inl ValueError
   \<and> get_parser PARSERS (ascii ''chemistry'') = Inl ValueError
   \<and> get_checker CHECKERS (ascii ''chemistry'') = Inl ValueError
   \<and> (\<exists>resp. check_answer DefaultChecker no_cstr send_timeout (blank_task SHORT_ANSWER None)
                (PStr (ascii ''42'')) = Inr resp
        \<and> result resp = ERROR \<and> error resp = Some RequestException)"
proof -
  have p: "ascii ''physics'' \<in> set (map fst SUBJECTS)"
    by (simp add: SUBJECTS_def)
  have c: "map_of SUBJECTS (ascii ''chemistry'') = None"
    by (simp add: SUBJECTS_def ascii_def)
  have f: "format_answer DefaultChecker no_cstr (blank_task SHORT_ANSWER None)
             (PStr (ascii ''42'')) = Inr (ascii ''42'')"
    by (simp add: format_eval format_short_answer_def py_strip_def ascii_def py_isspace_def)
  have s: "send_timeout (guid (blank_task SHORT_ANSWER None)) (ascii ''42'') = Inl RequestException"
    by (simp add: send_timeout_def)
  have r: "map_of PARSERS (ascii ''physics'') = Some PhysicsParser"
          "map_of CHECKERS (ascii ''physics'') = Some PhysicsChecker"
    by (simp_all add: PARSERS_def CHECKERS_def)
  from subject_lookup [of "ascii ''physics''" PARSERS CHECKERS] p
  obtain config where config: "get_subject_config (ascii ''physics'') = Inr config"
      "subject_key config = ascii ''physics''"
    by blast
  then have g: "get_parser PARSERS (ascii ''physics'') = Inr (PhysicsParser, config)"
      "get_checker CHECKERS (ascii ''physics'') = Inr (PhysicsChecker, config)"
    using r by (simp_all add: get_parser_def get_checker_def)
  from subject_lookup [of "ascii ''chemistry''" PARSERS CHECKERS DefaultChecker no_cstr
         "blank_task SHORT_ANSWER None" "PStr (ascii ''42'')" "ascii ''42''" send_timeout
         RequestException] c f s
  have "get_subject_config (ascii ''chemistry'') = Inl ValueError
     \<and> get_parser PARSERS (ascii ''chemistry'') = Inl ValueError
     \<and> get_checker CHECKERS (ascii ''chemistry'') = Inl ValueError
     \<and> (\<exists>resp. check_answer DefaultChecker no_cstr send_timeout (blank_task SHORT_ANSWER None)
                (PStr (ascii ''42'')) = Inr resp
        \<and> result resp = ERROR \<and> error resp = Some RequestException)"
    by blast
  with p c config g show ?thesis by blast
qed

text \<open>
  The claim as stated fails: an integer given as the answer to a MultiSelect task is
  not iterable, \<open>format_answer\<close> raises \<open>TypeError\<close>, and \<open>check_answer\<close>, which calls it
  before its \<open>try\<close> statement, lets the exception reach the caller.
\<close>

theorem format_error_propagates_counterexample:
  "format_answer DefaultChecker no_cstr (blank_task MULTIPLE_CHOICE None) (PInt 5)
     = Inl TypeError
   \<and> check_answer DefaultChecker no_cstr send_correct (blank_task MULTIPLE_CHOICE None) (PInt 5)
     = Inl TypeError"
  by (simp add: check_answer_def format_eval)

text \<open>
  C9. For every string made of the characters 0 and 1 only, the positions of its ones,
  turned back into a binary string of the same width, give the string itself.
\<close>

theorem binary_string_roundtrip:
  assumes "set s \<subseteq> set (ascii ''01'')"
  shows "indices_to_binary_string (binary_string_to_indices s) (int (length s)) = s"
proof -
  let ?bits = "set_bits (binary_string_to_indices s) (int (length s))
                 (replicate (nat (int (length s))) (ascii ''0''))"
  have "?bits = map (\<lambda>c. [c]) s"
  proof (rule nth_equalityI)
    show "length ?bits = length (map (\<lambda>c. [c]) s)"
      by (simp add: set_bits_length)
  next
    fix j assume "j < length ?bits"
    then have j: "j < length s" by (simp add: set_bits_length)
    then have "s ! j \<in> set (ascii ''01'')" using assms by auto
    then have "s ! j = 48 \<or> s ! j = 49" by (simp add: ascii_def)
    with j show "?bits ! j = map (\<lambda>c. [c]) s ! j"
      by (auto simp: set_bits_nth indices_member ascii_def)
  qed
  then show ?thesis
    by (simp add: indices_to_binary_string_def concat_singletons)
qed

text \<open>The string "10100" has its ones at 0 and 2 and comes back unchanged.\<close>

theorem binary_string_roundtrip_witness:
  "set (ascii ''10100'') \<subseteq> set (ascii ''01'')
   \<and> binary_string_to_indices (ascii ''10100'') = [0, 2]
   \<and> indices_to_binary_string (binary_string_to_indices (ascii ''10100''))
       (int (length (ascii ''10100''))) = ascii ''10100''"
proof -
  have h: "set (ascii ''10100'') \<subseteq> set (ascii ''01'')"
    by (simp add: ascii_def)
  have i: "binary_string_to_indices (ascii ''10100'') = [0, 2]"
    by (simp add: binary_string_to_indices_def ascii_def enumerate_eq_zip upt_rec)
  from binary_string_roundtrip [OF h] h i show ?thesis by simp
qed

text \<open>
  C10. For every MultiSelect task whose option list is present and empty, and every
  list or tuple of integer indices, \<open>format_answer\<close> gives a string of five
  characters, each 0 or 1; the empty list of indices gives "00000", not the empty
  string. The classifier produces such an option list when checkboxes are present in
  the variants block and no active row holds one.
\<close>

theorem empty_options_width_five:
  "(task_type task = MULTIPLE_CHOICE \<and> answer_variants task = Some [] \<longrightarrow>
      (\<exists>r. format_answer cls cstr task (PList (map PInt idxs)) = Inr r
            \<and> format_answer cls cstr task (PTuple (map PInt idxs)) = Inr r
            \<and> length r = 5 \<and> set r \<subseteq> set (ascii ''01''))
      \<and> format_answer cls cstr task (PList []) = Inr (ascii ''00000''))
   \<and> (find_tag doc (variants_block_of doc block) (ascii ''input'') text_answer_input = None
      \<and> find_all doc (variants_block_of doc block) (ascii ''input'') checkbox_input \<noteq> []
      \<and> list_all (\<lambda>row. find_tag doc row (ascii ''input'') checkbox_input = None)
           (find_all doc (variants_block_of doc block) (ascii ''tr'')
              [(ascii ''class'', ascii ''active-distractor'')]) \<longrightarrow>
      parse_answer_block L doc block =
        Inr (MULTIPLE_CHOICE, no_data\<lparr>kw_answer_variants := Some []\<rparr>))"
proof (intro conjI impI)
  assume a: "task_type task = MULTIPLE_CHOICE \<and> answer_variants task = Some []"
  let ?r = "concat (set_bits idxs 5 (replicate (nat 5) (ascii ''0'')))"
  have ns: "task_type task \<noteq> SHORT_ANSWER" using a by simp
  have n: "num_variants_of task = 5" using a by (simp add: num_variants_of_def)
  have f: "format_answer cls cstr task u = format_multiple_choice task u" for u
    using a by (simp add: format_answer_not_short [OF ns] default_format_answer_def)
  have 1: "format_multiple_choice task (PList (map PInt idxs)) = Inr ?r"
    by (simp add: format_multiple_choice_ints n)
  have tup: "format_multiple_choice task (PTuple (map PInt idxs)) = Inr ?r"
    by (simp add: format_multiple_choice_ints n)
  have 2: "length ?r = 5" using bits_string_length [of idxs 5] by simp
  have 3: "set ?r \<subseteq> set (ascii ''01'')"
  proof
    fix x assume "x \<in> set ?r"
    then obtain j where j: "j < length ?r" and x: "?r ! j = x"
      unfolding in_set_conv_nth by blast
    from j 2 have "j < nat 5" by simp
    from bits_string_nth [OF this, of idxs] x have "x = 49 \<or> x = 48"
      by (simp split: if_splits)
    then show "x \<in> set (ascii ''01'')" by (auto simp: ascii_def)
  qed
  from 1 tup 2 3
  show "\<exists>r. format_answer cls cstr task (PList (map PInt idxs)) = Inr r
            \<and> format_answer cls cstr task (PTuple (map PInt idxs)) = Inr r
            \<and> length r = 5 \<and> set r \<subseteq> set (ascii ''01'')"
    unfolding f by blast
  have "format_multiple_choice task (PList (map PInt [])) = Inr (ascii ''00000'')"
    unfolding format_multiple_choice_ints n by (simp add: ascii_def eval_nat_numeral)
  then show "format_answer cls cstr task (PList []) = Inr (ascii ''00000'')"
    unfolding f by simp
next
  assume a: "find_tag doc (variants_block_of doc block) (ascii ''input'') text_answer_input = None
      \<and> find_all doc (variants_block_of doc block) (ascii ''input'') checkbox_input \<noteq> []
      \<and> list_all (\<lambda>row. find_tag doc row (ascii ''input'') checkbox_input = None)
           (find_all doc (variants_block_of doc block) (ascii ''tr'')
              [(ascii ''class'', ascii ''active-distractor'')])"
  then have "list_all (\<lambda>row. find_tag doc row (ascii ''input'') checkbox_input = None)
           (find_all doc (variants_block_of doc block) (ascii ''tr'')
              [(ascii ''class'', ascii ''active-distractor'')])"
    by simp
  from list_all_enumerate_snd [OF this, of 0]
  have "multiple_choice_rows doc
          (enumerate 0 (find_all doc (variants_block_of doc block) (ascii ''tr'')
              [(ascii ''class'', ascii ''active-distractor'')])) [] = Inr []"
    by (rule multiple_choice_rows_none)
  with a show "parse_answer_block L doc block =
        Inr (MULTIPLE_CHOICE, no_data\<lparr>kw_answer_variants := Some []\<rparr>)"
    by (simp add: parse_answer_block_def parse_multiple_choice_def Let_def)
qed

text \<open>
  The fragment whose only checkbox stands in no active row is classified with an
  empty option list, and a task with such a list formats three indices, one of them
  out of range, to five characters.
\<close>

theorem empty_options_width_five_witness:
  "parse_answer_block plain_lib doc_text_outside [0] =
     Inr (MULTIPLE_CHOICE, no_data\<lparr>kw_answer_variants := Some []\<rparr>)
   \<and> format_answer DefaultChecker no_cstr (blank_task MULTIPLE_CHOICE (Some []))
       (PList (map PInt [0, 2, 7])) = Inr (ascii ''10100'')
   \<and> format_answer DefaultChecker no_cstr (blank_task MULTIPLE_CHOICE (Some []))
       (PList []) = Inr (ascii ''00000'')"
proof -
  have t: "task_type (blank_task MULTIPLE_CHOICE (Some [])) = MULTIPLE_CHOICE
         \<and> answer_variants (blank_task MULTIPLE_CHOICE (Some [])) = Some []"
    by (simp add: blank_task_def)
  have d: "find_tag doc_text_outside (variants_block_of doc_text_outside [0]) (ascii ''input'')
             text_answer_input = None
      \<and> find_all doc_text_outside (variants_block_of doc_text_outside [0]) (ascii ''input'')
             checkbox_input \<noteq> []
      \<and> list_all (\<lambda>row. find_tag doc_text_outside row (ascii ''input'') checkbox_input = None)
           (find_all doc_text_outside (variants_block_of doc_text_outside [0]) (ascii ''tr'')
              [(ascii ''class'', ascii ''active-distractor'')])"
    by (simp add: doc_text_outside_def dom_eval variants_block_of_def text_answer_input_def
        checkbox_input_def)
  have v: "format_answer DefaultChecker no_cstr (blank_task MULTIPLE_CHOICE (Some []))
       (PList (map PInt [0, 2, 7])) = Inr (ascii ''10100'')"
    by (simp add: format_eval ascii_def eval_nat_numeral)
  from empty_options_width_five
         [of "blank_task MULTIPLE_CHOICE (Some [])" DefaultChecker no_cstr "[0, 2, 7]"
             doc_text_outside "[0]" plain_lib] t d v
  show ?thesis by simp
qed

end
